(* ===== verification/Prelude.thy ===== *)
theory Prelude
  imports Complex_Main "HOL-Library.Sublist"
begin

text \<open>
  Shared vocabulary of the development: the names of the model's basic types, the
  theorem collections that the component theories fill, and generic facts on lists
  and characters that several components use.
  \<^item> \<open>js_simps\<close> collects the evaluation equations of the JavaScript built-ins
    (\<open>Js_Runtime\<close>), so that concrete formatting goals close by \<open>simp add: js_simps\<close>;
  \<^item> \<open>view_simps\<close> collects the equations of the DOM helpers (\<open>View\<close>);
  \<^item> \<open>ctrl_simps\<close> collects the equations of the controller's handlers (\<open>Controller\<close>).
\<close>

named_theorems js_simps "evaluation equations of the modelled JavaScript built-ins"
named_theorems view_simps "equations of the modelled DOM helpers"
named_theorems ctrl_simps "equations of the modelled event handlers"

text \<open>
  A JavaScript string is a sequence of UTF-16 code units; the data this program handles
  (PokeAPI names, URLs, decimal numbers, its own messages) is ASCII, so a string is
  modelled as an Isabelle \<open>string\<close>, one \<open>char\<close> per code unit.
\<close>

type_synonym js_string = string
type_synonym url = string

subsection \<open>Characters\<close>

definition ascii_code :: "char \<Rightarrow> nat" where
  "ascii_code c = of_char c"

lemma ascii_code_bound [simp]: "ascii_code c < 256"
  by (simp add: ascii_code_def)

lemma ascii_code_char_of [simp]: "n < 256 \<Longrightarrow> ascii_code (char_of n) = n"
  by (simp add: ascii_code_def)

lemma ascii_code_inj: "ascii_code c = ascii_code d \<longleftrightarrow> c = d"
  by (metis ascii_code_def char_of_char)

subsection \<open>Lists\<close>

lemma dropWhile_hd_not:
  "dropWhile P xs = y # ys \<Longrightarrow> \<not> P y"
  by (induction xs) (auto split: if_splits)

lemma takeWhile_append_last_not:
  "\<forall>x \<in> set xs. P x \<Longrightarrow> \<not> P y \<Longrightarrow> takeWhile P (xs @ y # zs) = xs"
  by (induction xs) auto

lemma find_append_first:
  "\<forall>x \<in> set xs. \<not> P x \<Longrightarrow> P y \<Longrightarrow> find P (xs @ y # zs) = Some y"
  by (induction xs) auto

lemma hd_not_dropWhile:
  "dropWhile P xs \<noteq> [] \<Longrightarrow> \<not> P (hd (dropWhile P xs))"
  by (cases "dropWhile P xs") (auto dest: dropWhile_hd_not)

lemma hd_rev_dropWhile_rev:
  "rev (dropWhile P (rev xs)) \<noteq> [] \<Longrightarrow> hd (rev (dropWhile P (rev xs))) = hd xs"
proof (induction xs rule: rev_induct)
  case Nil
  then show ?case by simp
next
  case (snoc x xs)
  show ?case
  proof (cases "P x")
    case True
    with snoc.prems have ne: "rev (dropWhile P (rev xs)) \<noteq> []" by simp
    then have "xs \<noteq> []" by auto
    with True ne snoc.IH show ?thesis by simp
  next
    case False
    then show ?thesis by simp
  qed
qed

end
