(* ===== verification/Js_Runtime.thy ===== *)
theory Js_Runtime
  imports Prelude
begin

text \<open>
  The JavaScript built-ins that \<open>src/app.js\<close> calls, modelled from the ECMAScript
  specification on strings of 8-bit characters (code points below 256): \<open>String.prototype.trim\<close>,
  \<open>toLowerCase\<close>, \<open>toUpperCase\<close>, \<open>split\<close> with a one-character separator,
  \<open>Array.prototype.join\<close>, \<open>includes\<close>, \<open>padStart\<close>, \<open>Number.prototype.toString\<close>
  on non-negative integers, \<open>Number.prototype.toFixed\<close> on exact rationals and the
  \<open>Math.floor(Math.random() * n) + 1\<close> idiom. They are library code that the sources
  only call; the lemmas here are the facts the component proofs need about them.
\<close>

subsection \<open>Whitespace, case\<close>

text \<open>
  ECMAScript WhiteSpace and LineTerminator code points that fit in a character of the model
  (below 256): tab, line feed, vertical tab, form feed, carriage return, space and the
  no-break space U+00A0.
\<close>

definition js_whitespace :: "char \<Rightarrow> bool" where
  "js_whitespace c \<longleftrightarrow> ascii_code c \<in> {9, 10, 11, 12, 13, 32, 160}"

definition js_trim :: "js_string \<Rightarrow> js_string" where
  "js_trim s = rev (dropWhile js_whitespace (rev (dropWhile js_whitespace s)))"

text \<open>
  \<open>toLowerCase\<close> on one code point below 256: the Unicode lower-case mapping sends A--Z
  and the Latin-1 capitals U+00C0--U+00DE (except the multiplication sign U+00D7) 32 code
  points up and fixes every other code point of that range. \<open>toUpperCase\<close> is modelled on
  ASCII only: three Latin-1 letters (U+00B5, U+00DF, U+00FF) upper-case to code points
  above 255 or to two characters.
\<close>

definition to_lower_char :: "char \<Rightarrow> char" where
  "to_lower_char c =
     (if 65 \<le> ascii_code c \<and> ascii_code c \<le> 90
         \<or> 192 \<le> ascii_code c \<and> ascii_code c \<le> 222 \<and> ascii_code c \<noteq> 215
      then char_of (ascii_code c + 32) else c)"

definition to_upper_char :: "char \<Rightarrow> char" where
  "to_upper_char c =
     (if 97 \<le> ascii_code c \<and> ascii_code c \<le> 122 then char_of (ascii_code c - 32) else c)"

definition js_to_lower :: "js_string \<Rightarrow> js_string" where
  "js_to_lower s = map to_lower_char s"

definition js_to_upper :: "js_string \<Rightarrow> js_string" where
  "js_to_upper s = map to_upper_char s"

lemma js_trim_empty_iff: "js_trim s = [] \<longleftrightarrow> (\<forall>c \<in> set s. js_whitespace c)"
proof -
  have "js_trim s = [] \<longleftrightarrow> (\<forall>c \<in> set (dropWhile js_whitespace s). js_whitespace c)"
    by (simp add: js_trim_def dropWhile_eq_Nil_conv)
  also have "\<dots> \<longleftrightarrow> dropWhile js_whitespace s = []"
    by (cases "dropWhile js_whitespace s") (auto dest: dropWhile_hd_not set_dropWhileD)
  finally show ?thesis by (simp add: dropWhile_eq_Nil_conv)
qed

lemma js_to_lower_length [simp]: "length (js_to_lower s) = length s"
  by (simp add: js_to_lower_def)

lemma to_upper_char_idem [simp]: "to_upper_char (to_upper_char c) = to_upper_char c"
proof -
  have "ascii_code c - 32 < 256"
    using ascii_code_bound [of c] by arith
  then show ?thesis by (auto simp: to_upper_char_def)
qed

text \<open>
  The result of \<open>trim()\<close> neither starts nor ends with white space, and lower-casing
  maps white space to white space and leaves no upper-case letter.
\<close>

lemma js_trim_edges:
  "js_trim s \<noteq> [] \<Longrightarrow> \<not> js_whitespace (hd (js_trim s)) \<and> \<not> js_whitespace (last (js_trim s))"
proof -
  let ?d = "dropWhile js_whitespace s"
  let ?x = "dropWhile js_whitespace (rev ?d)"
  assume ne: "js_trim s \<noteq> []"
  then have x: "?x \<noteq> []" by (simp only: js_trim_def rev_is_Nil_conv not_False_eq_True)
  then have d: "?d \<noteq> []" by (cases ?d) simp_all
  have "hd (js_trim s) = hd ?d"
    using ne unfolding js_trim_def by (rule hd_rev_dropWhile_rev)
  moreover have "last (js_trim s) = hd ?x"
    using x by (simp add: js_trim_def last_rev)
  ultimately show ?thesis
    using hd_not_dropWhile [OF d] hd_not_dropWhile [OF x] by simp
qed

lemma to_lower_char_whitespace [simp]: "js_whitespace (to_lower_char c) = js_whitespace c"
proof -
  have "ascii_code c + 32 < 256" if "ascii_code c \<le> 90" using that by simp
  then show ?thesis by (auto simp: to_lower_char_def js_whitespace_def)
qed

lemma to_lower_char_not_upper:
  "\<not> (65 \<le> ascii_code (to_lower_char c) \<and> ascii_code (to_lower_char c) \<le> 90)"
proof -
  have "ascii_code c + 32 < 256" if "ascii_code c \<le> 90" using that by simp
  then show ?thesis by (auto simp: to_lower_char_def)
qed

lemma to_upper_char_hyphen: "to_upper_char c = CHR ''-'' \<longleftrightarrow> c = CHR ''-''"
proof -
  have "ascii_code c - 32 < 256" using ascii_code_bound [of c] by arith
  moreover have "ascii_code (CHR ''-'') = 45" by (simp add: ascii_code_def)
  ultimately show ?thesis
    unfolding to_upper_char_def by (auto simp: ascii_code_inj [symmetric])
qed

text \<open>
  \<open>s.charAt(i)\<close> is the one-character string at \<open>i\<close>, or \<open>''\<close> out of range (JS
  does not raise); \<open>s.slice(i)\<close> for \<open>i \<ge> 0\<close> is the suffix from \<open>i\<close>.
\<close>

definition js_char_at :: "js_string \<Rightarrow> nat \<Rightarrow> js_string" where
  "js_char_at s i = (if i < length s then [s ! i] else [])"

definition js_slice_from :: "js_string \<Rightarrow> nat \<Rightarrow> js_string" where
  "js_slice_from s i = drop i s"

lemma js_char_at_0 [js_simps]: "js_char_at [] 0 = []" "js_char_at (c # cs) 0 = [c]"
  by (simp_all add: js_char_at_def)

lemma js_slice_from_simps [js_simps]:
  "js_slice_from s 0 = s" "js_slice_from [] n = []"
  "js_slice_from (c # cs) (Suc n) = js_slice_from cs n"
  by (simp_all add: js_slice_from_def)

lemma js_to_upper_simps [js_simps]: "js_to_upper [] = []" "js_to_upper [c] = [to_upper_char c]"
  by (simp_all add: js_to_upper_def)

subsection \<open>split and join\<close>

text \<open>
  \<open>s.split(sep)\<close> for a one-character separator: the maximal separator-free pieces, in
  order; an empty string gives \<open>['']\<close> and adjacent separators give empty pieces.
\<close>

fun js_split :: "char \<Rightarrow> js_string \<Rightarrow> js_string list" where
  "js_split sep [] = [[]]"
| "js_split sep (c # cs) =
     (if c = sep then [] # js_split sep cs
      else (case js_split sep cs of w # ws \<Rightarrow> (c # w) # ws | [] \<Rightarrow> [[c]]))"

fun js_join :: "js_string \<Rightarrow> js_string list \<Rightarrow> js_string" where
  "js_join sep [] = []"
| "js_join sep [w] = w"
| "js_join sep (w # ws) = w @ sep @ js_join sep ws"

lemma js_split_not_Nil [simp]: "js_split sep s \<noteq> []"
  by (induction s) (auto split: list.splits)

lemma js_split_no_sep: "w \<in> set (js_split sep s) \<Longrightarrow> sep \<notin> set w"
  by (induction s arbitrary: w) (auto split: if_splits list.splits)

lemma js_join_Cons_Cons: "js_join sep ((c # w) # ws) = c # js_join sep (w # ws)"
  by (cases ws) simp_all

lemma js_join_split [js_simps]: "js_join [sep] (js_split sep s) = s"
proof (induction s)
  case Nil
  then show ?case by simp
next
  case (Cons c cs)
  obtain w ws where ws: "js_split sep cs = w # ws"
    by (cases "js_split sep cs") auto
  show ?case
  proof (cases "c = sep")
    case True
    with Cons.IH ws show ?thesis by simp
  next
    case False
    with Cons.IH ws show ?thesis by (simp add: js_join_Cons_Cons)
  qed
qed

lemma js_join_map_length:
  "(\<forall>w. length (f w) = length w) \<Longrightarrow>
   length (js_join [c] (map f ws)) = length (js_join [c] ws)"
  by (induction "[c]" ws rule: js_join.induct) simp_all

lemma set_js_join: "set (js_join sep ws) \<subseteq> set sep \<union> (\<Union>w \<in> set ws. set w)"
  by (induction sep ws rule: js_join.induct) auto

subsection \<open>includes\<close>

fun js_includes :: "js_string \<Rightarrow> js_string \<Rightarrow> bool" where
  "js_includes [] pat = (pat = [])"
| "js_includes (c # cs) pat = (prefix pat (c # cs) \<or> js_includes cs pat)"

lemma js_includes_sublist: "js_includes s pat \<longleftrightarrow> sublist pat s"
  by (induction s) (auto simp: sublist_Cons_right)

lemma js_includes_append_iff:
  "js_includes s pat \<longleftrightarrow> (\<exists>a b. s = a @ pat @ b)"
  by (simp add: js_includes_sublist sublist_def)

subsection \<open>Numbers as strings\<close>

text \<open>
  \<open>Number.prototype.toString()\<close> on a non-negative integer: its decimal digits, most
  significant first, without leading zeros. \<open>string_to_nat\<close> reads decimal digits back;
  it is the inverse used to state round trips, not a function the program calls.
\<close>

definition digit_char :: "nat \<Rightarrow> char" where
  "digit_char d = ''0123456789'' ! d"

lemma nat_less_10_cases:
  "(d::nat) < 10 \<Longrightarrow> d = 0 \<or> d = 1 \<or> d = 2 \<or> d = 3 \<or> d = 4 \<or> d = 5 \<or> d = 6 \<or> d = 7 \<or> d = 8 \<or> d = 9"
  by arith

fun nat_to_string :: "nat \<Rightarrow> js_string" where
  "nat_to_string n =
     (if n < 10 then [digit_char n] else nat_to_string (n div 10) @ [digit_char (n mod 10)])"

declare nat_to_string.simps [simp del]

definition digit_value :: "char \<Rightarrow> nat" where
  "digit_value c = ascii_code c - 48"

definition string_to_nat :: "js_string \<Rightarrow> nat" where
  "string_to_nat s = foldl (\<lambda>acc c. 10 * acc + digit_value c) 0 s"

text \<open>\<open>s.padStart(len, c)\<close> with a one-character filler.\<close>

definition js_pad_start :: "nat \<Rightarrow> char \<Rightarrow> js_string \<Rightarrow> js_string" where
  "js_pad_start len c s = replicate (len - length s) c @ s"

text \<open>
  \<open>x.toFixed(f)\<close> (ECMA-262, Number.prototype.toFixed) on an exact rational \<open>x\<close>:
  the integer \<open>n\<close> nearest to \<open>|x| * 10^f\<close>, the larger on a tie, printed in
  decimal, padded with zeros to at least \<open>f + 1\<close> digits, with a point before the last
  \<open>f\<close> of them and a minus sign when \<open>x < 0\<close>. For \<open>|x| \<ge> 10^21\<close> the
  built-in falls back to exponential notation, which is not modelled (\<open>None\<close>).
\<close>

definition js_to_fixed :: "nat \<Rightarrow> rat \<Rightarrow> js_string option" where
  "js_to_fixed f x =
     (if 10 ^ 21 \<le> \<bar>x\<bar> then None
      else
        let n = nat \<lfloor>\<bar>x\<bar> * 10 ^ f + 1 / 2\<rfloor>;
            m = nat_to_string n;
            m = (if f \<noteq> 0 \<and> length m \<le> f then replicate (f + 1 - length m) (CHR ''0'') @ m else m);
            k = length m - f
        in Some ((if x < 0 then ''-'' else []) @
                 (if f = 0 then m else take k m @ ''.'' @ drop k m)))"

lemma nat_to_string_small [simp]: "n < 10 \<Longrightarrow> nat_to_string n = [digit_char n]"
  by (simp add: nat_to_string.simps)

lemma nat_to_string_large:
  "10 \<le> n \<Longrightarrow> nat_to_string n = nat_to_string (n div 10) @ [digit_char (n mod 10)]"
  by (simp add: nat_to_string.simps [of n])

lemma nat_to_string_not_Nil [simp]: "nat_to_string n \<noteq> []"
  by (cases "n < 10") (simp_all add: nat_to_string_large)

lemma digit_value_digit_char [simp]: "d < 10 \<Longrightarrow> digit_value (digit_char d) = d"
  by (drule nat_less_10_cases) (auto simp: digit_value_def digit_char_def ascii_code_def)

lemma digit_char_set: "d < 10 \<Longrightarrow> digit_char d \<in> set ''0123456789''"
  by (drule nat_less_10_cases) (auto simp: digit_char_def)

lemma digit_char_inj: "d < 10 \<Longrightarrow> e < 10 \<Longrightarrow> digit_char d = digit_char e \<longleftrightarrow> d = e"
  by (metis digit_value_digit_char)

lemma string_to_nat_snoc [simp]:
  "string_to_nat (s @ [c]) = 10 * string_to_nat s + digit_value c"
  by (simp add: string_to_nat_def)

lemma string_to_nat_nat_to_string: "string_to_nat (nat_to_string n) = n"
proof (induction n rule: nat_to_string.induct)
  case (1 n)
  show ?case
  proof (cases "n < 10")
    case True
    then show ?thesis by (simp add: string_to_nat_def)
  next
    case False
    with "1.IH" show ?thesis by (simp add: nat_to_string_large)
  qed
qed

lemma string_to_nat_zeros:
  "string_to_nat (replicate k (CHR ''0'') @ s) = string_to_nat s"
proof -
  have "foldl (\<lambda>acc c. 10 * acc + digit_value c) 0 (replicate k (CHR ''0'')) = 0"
    by (induction k) (simp_all add: digit_value_def ascii_code_def)
  then show ?thesis by (simp add: string_to_nat_def)
qed

lemma nat_to_string_3:
  "100 \<le> n \<Longrightarrow> n < 1000 \<Longrightarrow>
   nat_to_string n = [digit_char (n div 100), digit_char (n div 10 mod 10), digit_char (n mod 10)]"
proof -
  assume "100 \<le> n" "n < 1000"
  then have "10 \<le> n div 10" "n div 10 div 10 < 10" "n div 10 div 10 = n div 100"
    by (auto simp: div_mult2_eq)
  with \<open>100 \<le> n\<close> show ?thesis
    by (simp add: nat_to_string_large [of n] nat_to_string_large [of "n div 10"])
qed

lemma floor_tenths_round: "nat \<lfloor>(of_nat h / 10 :: rat) * 10 ^ 1 + 1 / 2\<rfloor> = h"
proof -
  have "(of_nat h / 10 :: rat) * 10 ^ 1 + 1 / 2 = of_int (int h) + 1 / 2"
    by simp
  moreover have "\<lfloor>of_int (int h) + (1 / 2 :: rat)\<rfloor> = int h"
    by (simp add: floor_eq_iff)
  ultimately show ?thesis by simp
qed

lemma js_to_fixed_tenths:
  assumes "h < 10 ^ 22"
  shows "js_to_fixed 1 (of_nat h / 10) =
           Some (nat_to_string (h div 10) @ ''.'' @ [digit_char (h mod 10)])"
proof -
  have "(of_nat h :: rat) < 10 ^ 22"
    using assms by (metis of_nat_less_iff of_nat_numeral of_nat_power)
  then have range: "\<not> 10 ^ 21 \<le> \<bar>of_nat h / 10 :: rat\<bar>"
    by simp
  have n: "nat \<lfloor>\<bar>of_nat h / 10 :: rat\<bar> * 10 ^ 1 + 1 / 2\<rfloor> = h"
    using floor_tenths_round by simp
  show ?thesis
  proof (cases "h < 10")
    case True
    then show ?thesis
      unfolding js_to_fixed_def Let_def n using range by (simp add: digit_char_def)
  next
    case False
    then have "nat_to_string h = nat_to_string (h div 10) @ [digit_char (h mod 10)]"
      by (simp add: nat_to_string_large)
    then show ?thesis
      unfolding js_to_fixed_def Let_def n using range by simp
  qed
qed

lemma length_nat_to_string_le: "n < 10 ^ k \<Longrightarrow> 0 < k \<Longrightarrow> length (nat_to_string n) \<le> k"
proof (induction k arbitrary: n)
  case 0
  then show ?case by simp
next
  case (Suc j)
  show ?case
  proof (cases "n < 10")
    case True
    then show ?thesis by simp
  next
    case False
    with Suc.prems have "n div 10 < 10 ^ j" and "0 < j"
      by (auto simp: div_less_iff_less_mult mult.commute intro: Nat.gr0I)
    with Suc.IH have "length (nat_to_string (n div 10)) \<le> j" by blast
    with False show ?thesis by (simp add: nat_to_string_large)
  qed
qed

lemma nat_to_string_digits: "set (nat_to_string n) \<subseteq> set ''0123456789''"
proof (induction n rule: nat_to_string.induct)
  case (1 n)
  show ?case
  proof (cases "n < 10")
    case True
    then show ?thesis using digit_char_set [of n] by auto
  next
    case False
    then show ?thesis using "1.IH" digit_char_set [of "n mod 10"] by (auto simp: nat_to_string_large)
  qed
qed

end
