(* ===== verification/Pokemon_Data.thy ===== *)
theory Pokemon_Data
  imports Js_Runtime
begin

text \<open>
  The data that crosses the network boundary of \<open>src/app.js\<close>: the part of the PokeAPI
  \<open>/api/v2/pokemon/<query>\<close> JSON record the program reads, and the outcome of one
  \<open>fetch\<close> call. Only the fields the code dereferences are modelled; a JSON \<open>null\<close> or
  a missing optional field is \<open>None\<close>. The JSON body is assumed well-typed (the code
  dereferences \<open>types\<close>, \<open>abilities\<close> and \<open>name\<close> unguarded); a body that is
  not JSON at all is the \<open>Json_syntax_error\<close> outcome of \<open>response.json()\<close>.
\<close>

text \<open>\<open>pokemon.sprites.other['official-artwork']\<close> and \<open>.dream_world\<close>.\<close>

record artwork =
  art_front_default :: "js_string option"

record other_sprites =
  official_artwork :: "artwork option"
  dream_world :: "artwork option"

text \<open>\<open>pokemon.sprites\<close>.\<close>

record sprite_set =
  other :: "other_sprites option"
  front_default :: "js_string option"
  front_shiny :: "js_string option"

text \<open>\<open>{name}\<close> resources referenced from \<open>types[i].type\<close> and \<open>abilities[i].ability\<close>.\<close>

record api_resource =
  resource_name :: js_string

record type_info =
  type_ref :: api_resource

record ability_info =
  ability_ref :: api_resource

text \<open>
  The record itself. \<open>id\<close> is \<open>poke_id\<close> (\<open>id\<close> is HOL's identity);
  \<open>base_experience\<close> is a number or \<open>null\<close>.
\<close>

record pokemon =
  name :: js_string
  poke_id :: nat
  sprites :: "sprite_set option"
  height :: nat
  weight :: nat
  base_experience :: "nat option"
  types :: "type_info list"
  abilities :: "ability_info list"

text \<open>
  One call of \<open>fetch(url)\<close>: either the promise rejects with a \<open>TypeError\<close> (no
  connection, DNS, CORS), carrying the browser's message, or it resolves to a response with
  an HTTP status whose body \<open>response.json()\<close> either parses or rejects with a
  \<open>SyntaxError\<close> message.
\<close>

datatype json_body = Json pokemon | Json_syntax_error js_string

datatype fetch_outcome =
    Network_failure js_string
  | Http_response nat json_body

text \<open>\<open>response.ok\<close>: the status is in the range 200--299 (Fetch standard).\<close>

definition response_ok :: "nat \<Rightarrow> bool" where
  "response_ok st \<longleftrightarrow> 200 \<le> st \<and> st \<le> 299"

end
