(* ===== verification/Formatter.thy ===== *)
theory Formatter
  imports Pokemon_Data
begin

text \<open>
  The presentation formatter of \<open>src/app.js\<close>: the pure helpers \<open>capitalize\<close> and
  \<open>formatAbilityName\<close>, the display values \<open>populatePokemonData\<close> writes into the
  card (name, \<open>#NNN\<close> identifier, height, weight, base experience, type badges, ability
  tags), and the image fallback chain of \<open>loadPokemonImage\<close> / \<open>tryLoadImage\<close> /
  \<open>handleImageError\<close>. The DOM elements these write are fields of the records
  \<open>image\<close> and \<open>card\<close>; the effects on the rest of the page are in \<open>View\<close>.
\<close>

subsection \<open>String helpers\<close>

definition capitalize :: "js_string \<Rightarrow> js_string" where
  "capitalize str = js_to_upper (js_char_at str 0) @ js_slice_from str 1"

definition format_ability_name :: "js_string \<Rightarrow> js_string" where
  "format_ability_name nm = js_join '' '' (map capitalize (js_split (CHR ''-'') nm))"

lemma capitalize_simps [simp]:
  "capitalize [] = []" "capitalize (c # cs) = to_upper_char c # cs"
  by (simp_all add: capitalize_def js_simps)

text \<open>
  A one-pass reference for \<open>formatAbilityName\<close>: hyphens become spaces, and a letter is
  upper-cased exactly when it starts the string or follows a hyphen.
\<close>

fun title_words :: "bool \<Rightarrow> js_string \<Rightarrow> js_string" where
  "title_words at_start [] = []"
| "title_words at_start (c # cs) =
     (if c = CHR ''-'' then CHR '' '' # title_words True cs
      else (if at_start then to_upper_char c else c) # title_words False cs)"

lemma title_words_split:
  "js_split (CHR ''-'') cs = w # ws \<Longrightarrow>
   title_words b cs = js_join '' '' ((if b then capitalize w else w) # map capitalize ws)"
proof (induction cs arbitrary: b w ws)
  case Nil
  then show ?case by simp
next
  case (Cons c cs)
  obtain v vs where v: "js_split (CHR ''-'') cs = v # vs"
    by (cases "js_split (CHR ''-'') cs") auto
  show ?case
  proof (cases "c = CHR ''-''")
    case True
    with Cons.prems v have "w = []" "ws = v # vs" by auto
    with True Cons.IH [OF v, of True] show ?thesis by simp
  next
    case False
    with Cons.prems v have "w = c # v" "ws = vs" by auto
    with False Cons.IH [OF v, of False] show ?thesis
      by (cases b) (simp_all add: js_join_Cons_Cons)
  qed
qed

text \<open>\<open>formatAbilityName\<close> agrees with the one-pass reference on every string.\<close>

text \<open>C8: formatAbilityName equals the one-pass reference: every hyphen becomes a space and exactly the characters at the start or after a hyphen are upper-cased\<close>

theorem format_ability_name_eq_title_words:
  "format_ability_name nm = title_words True nm"
proof -
  obtain w ws where "js_split (CHR ''-'') nm = w # ws"
    by (cases "js_split (CHR ''-'') nm") auto
  then show ?thesis by (simp add: format_ability_name_def title_words_split)
qed

lemma hyphen_not_in_capitalize:
  assumes "CHR ''-'' \<notin> set w" shows "CHR ''-'' \<notin> set (capitalize w)"
proof (cases w)
  case (Cons c cs)
  then have "c \<noteq> CHR ''-''" "CHR ''-'' \<notin> set cs" using assms by auto
  then show ?thesis using Cons to_upper_char_hyphen [of c] by simp
qed simp

text \<open>C25: an ability name shown on the card never contains a hyphen: every hyphen of the API name becomes the separator of two words, and capitalisation never produces one\<close>

theorem format_ability_name_no_hyphen: "CHR ''-'' \<notin> set (format_ability_name nm)"
proof
  assume h: "CHR ''-'' \<in> set (format_ability_name nm)"
  have "set (format_ability_name nm) \<subseteq>
          set '' '' \<union> (\<Union>w \<in> set (map capitalize (js_split (CHR ''-'') nm)). set w)"
    unfolding format_ability_name_def by (rule set_js_join)
  with h obtain w where w: "w \<in> set (js_split (CHR ''-'') nm)" "CHR ''-'' \<in> set (capitalize w)"
    by fastforce
  from js_split_no_sep [OF w(1)] have "CHR ''-'' \<notin> set w" by simp
  with w(2) show False using hyphen_not_in_capitalize by blast
qed

subsection \<open>Card values written by populatePokemonData\<close>

text \<open>\<open>`#${pokemon.id.toString().padStart(3, '0')}`\<close>\<close>

definition id_text :: "nat \<Rightarrow> js_string" where
  "id_text i = ''#'' @ js_pad_start 3 (CHR ''0'') (nat_to_string i)"

text \<open>
  \<open>`${(pokemon.height / 10).toFixed(1)} m`\<close> and the same for the weight in kg;
  \<open>None\<close> is the exponential-notation text of a value of at least \<open>10^21\<close>.
\<close>

definition height_text :: "nat \<Rightarrow> js_string option" where
  "height_text h = map_option (\<lambda>s. s @ '' m'') (js_to_fixed 1 (of_nat h / 10))"

definition weight_text :: "nat \<Rightarrow> js_string option" where
  "weight_text w = map_option (\<lambda>s. s @ '' kg'') (js_to_fixed 1 (of_nat w / 10))"

text \<open>
  \<open>pokemon.base_experience || 'N/A'\<close>: both \<open>null\<close> and the number \<open>0\<close> are
  falsy; any other number is shown through \<open>textContent\<close>, i.e. as its decimal string.
\<close>

definition exp_text :: "nat option \<Rightarrow> js_string" where
  "exp_text e = (case e of None \<Rightarrow> ''N/A'' | Some n \<Rightarrow> if n = 0 then ''N/A'' else nat_to_string n)"

text \<open>A \<open><span>\<close> appended by \<open>populateTypes\<close> or \<open>populateAbilities\<close>.\<close>

record badge =
  badge_class :: js_string
  badge_text :: js_string

definition type_badge :: "type_info \<Rightarrow> badge" where
  "type_badge ti =
     \<lparr>badge_class = ''type-badge type-badge--'' @ resource_name (type_ref ti),
      badge_text = capitalize (resource_name (type_ref ti))\<rparr>"

definition ability_tag :: "ability_info \<Rightarrow> badge" where
  "ability_tag ai =
     \<lparr>badge_class = ''ability-tag'', badge_text = format_ability_name (resource_name (ability_ref ai))\<rparr>"

text \<open>
  \<open>innerHTML = ''\<close> followed by one \<open>appendChild\<close> per element of the array, in
  \<open>forEach\<close> order: the container's children are exactly the mapped list.
\<close>

definition populate_types :: "type_info list \<Rightarrow> badge list" where
  "populate_types ts = map type_badge ts"

definition populate_abilities :: "ability_info list \<Rightarrow> badge list" where
  "populate_abilities as = map ability_tag as"

subsection \<open>The image fallback chain\<close>

text \<open>The \<open><img id="pokemonImage">\<close> element: \<open>style.display\<close> (block or none), \<open>src\<close>, \<open>alt\<close>.\<close>

record image =
  img_display :: bool
  img_src :: url
  img_alt :: js_string

definition github_artwork_url :: "nat \<Rightarrow> url" where
  "github_artwork_url i =
     ''https://raw.githubusercontent.com/PokeAPI/sprites/master/sprites/pokemon/other/official-artwork/''
     @ nat_to_string i @ ''.png''"

definition github_sprite_url :: "nat \<Rightarrow> url" where
  "github_sprite_url i =
     ''https://raw.githubusercontent.com/PokeAPI/sprites/master/sprites/pokemon/''
     @ nat_to_string i @ ''.png''"

text \<open>The array literal of \<open>loadPokemonImage\<close>, optional chaining as \<open>Option.bind\<close>.\<close>

definition image_candidates :: "pokemon \<Rightarrow> js_string option list" where
  "image_candidates p =
     [Option.bind (Option.bind (Option.bind (sprites p) other) official_artwork) art_front_default,
      Option.bind (Option.bind (Option.bind (sprites p) other) dream_world) art_front_default,
      Option.bind (sprites p) front_default,
      Option.bind (sprites p) front_shiny,
      Some (github_artwork_url (poke_id p)),
      Some (github_sprite_url (poke_id p))]"

text \<open>\<open>.filter(Boolean)\<close>: drops \<open>null\<close>, \<open>undefined\<close> and the empty string.\<close>

fun filter_boolean :: "js_string option list \<Rightarrow> js_string list" where
  "filter_boolean [] = []"
| "filter_boolean (None # xs) = filter_boolean xs"
| "filter_boolean (Some s # xs) = (if s = [] then filter_boolean xs else s # filter_boolean xs)"

definition image_sources :: "pokemon \<Rightarrow> url list" where
  "image_sources p = filter_boolean (image_candidates p)"

definition reset_image :: "image \<Rightarrow> image" where
  "reset_image img = img\<lparr>img_display := False, img_src := []\<rparr>"

definition handle_image_error :: "image \<Rightarrow> image" where
  "handle_image_error img = img\<lparr>img_display := False\<rparr>"

text \<open>The \<open>img.onload\<close> callback of \<open>tryLoadImage\<close> for the candidate \<open>u\<close>.\<close>

definition image_onload :: "url \<Rightarrow> js_string \<Rightarrow> image \<Rightarrow> image" where
  "image_onload u nm img = img\<lparr>img_src := u, img_alt := nm @ '' sprite'', img_display := True\<rparr>"

text \<open>
  \<open>tryLoadImage(sources, index, pokemon)\<close> run to completion against an environment
  \<open>loads\<close> that says which URLs load: the final image element and the URLs requested, in
  order. Each \<open>onerror\<close> recurses on \<open>index + 1\<close>, so the recursion is on the distance
  to the end of the list.
\<close>

function try_load_image ::
  "(url \<Rightarrow> bool) \<Rightarrow> url list \<Rightarrow> nat \<Rightarrow> js_string \<Rightarrow> image \<Rightarrow> image \<times> url list" where
  "try_load_image loads srcs i nm img =
     (if length srcs \<le> i then (handle_image_error img, [])
      else if loads (srcs ! i) then (image_onload (srcs ! i) nm img, [srcs ! i])
      else (let (img', tried) = try_load_image loads srcs (Suc i) nm img in (img', srcs ! i # tried)))"
  by pat_completeness auto
termination
  by (relation "measure (\<lambda>(loads, srcs, i, nm, img). length srcs - i)") auto

declare try_load_image.simps [simp del]

text \<open>\<open>loadPokemonImage\<close>: build the list, reset the element, then start the chain.\<close>

definition load_pokemon_image :: "(url \<Rightarrow> bool) \<Rightarrow> pokemon \<Rightarrow> image \<Rightarrow> image \<times> url list" where
  "load_pokemon_image loads p img =
     (let srcs = image_sources p; img' = reset_image img
      in if srcs = [] then (handle_image_error img', []) else try_load_image loads srcs 0 (name p) img')"

subsection \<open>The card\<close>

text \<open>
  The display elements \<open>populatePokemonData\<close> writes: \<open>pokemonName\<close>,
  \<open>pokemonId\<close>, \<open>pokemonImage\<close>, \<open>pokemonHeight\<close>, \<open>pokemonWeight\<close>,
  \<open>pokemonExp\<close> and the children of \<open>pokemonTypes\<close> and \<open>abilitiesList\<close>.
\<close>

record card =
  card_name :: js_string
  card_id :: js_string
  card_image :: image
  card_height :: "js_string option"
  card_weight :: "js_string option"
  card_exp :: js_string
  card_types :: "badge list"
  card_abilities :: "badge list"

text \<open>
  The synchronous part of \<open>loadPokemonImage\<close> (lines 196--215): the element is reset and,
  when there is no candidate, hidden; otherwise \<open>tryLoadImage(sources, 0, pokemon)\<close>
  requests \<open>sources[0]\<close> and returns, the rest of the chain running in callbacks.
\<close>

definition load_image_start :: "pokemon \<Rightarrow> image \<Rightarrow> image" where
  "load_image_start p img =
     (let img' = reset_image img in if image_sources p = [] then handle_image_error img' else img')"

definition populate_pokemon_data :: "pokemon \<Rightarrow> card \<Rightarrow> card" where
  "populate_pokemon_data p c =
     c\<lparr>card_name := capitalize (name p),
       card_id := id_text (poke_id p),
       card_image := load_image_start p (card_image c),
       card_height := height_text (height p),
       card_weight := weight_text (weight p),
       card_exp := exp_text (base_experience p),
       card_types := populate_types (types p),
       card_abilities := populate_abilities (abilities p)\<rparr>"

subsection \<open>Properties\<close>

lemma filter_boolean_append:
  "filter_boolean (xs @ ys) = filter_boolean xs @ filter_boolean ys"
  by (induction xs rule: filter_boolean.induct) auto

lemma length_filter_boolean: "length (filter_boolean xs) \<le> length xs"
  by (induction xs rule: filter_boolean.induct) auto

lemma try_load_image_eq:
  "try_load_image loads srcs i nm img =
     (case find loads (drop i srcs) of
        Some u \<Rightarrow> (image_onload u nm img, takeWhile (\<lambda>v. \<not> loads v) (drop i srcs) @ [u])
      | None \<Rightarrow> (handle_image_error img, drop i srcs))"
proof (induction loads srcs i nm img rule: try_load_image.induct)
  case (1 loads srcs i nm img)
  show ?case
  proof (cases "length srcs \<le> i")
    case True
    then show ?thesis by (simp add: try_load_image.simps [of loads srcs i])
  next
    case False
    then have drop: "drop i srcs = srcs ! i # drop (Suc i) srcs"
      by (simp add: Cons_nth_drop_Suc)
    show ?thesis
    proof (cases "loads (srcs ! i)")
      case True
      with False drop show ?thesis by (simp add: try_load_image.simps [of loads srcs i])
    next
      case nl: False
      with False "1.IH" drop show ?thesis
        by (simp add: try_load_image.simps [of loads srcs i] split: option.splits)
    qed
  qed
qed

lemma image_sources_fallbacks:
  "\<exists>xs. image_sources p = xs @ [github_artwork_url (poke_id p), github_sprite_url (poke_id p)]
        \<and> length xs \<le> 4"
proof -
  let ?opt = "take 4 (image_candidates p)"
  have split: "image_sources p = filter_boolean ?opt @ filter_boolean (drop 4 (image_candidates p))"
    unfolding image_sources_def filter_boolean_append [symmetric] by simp
  have "drop 4 (image_candidates p) = [Some (github_artwork_url (poke_id p)), Some (github_sprite_url (poke_id p))]"
    by (simp add: image_candidates_def)
  then have "image_sources p = filter_boolean ?opt @ [github_artwork_url (poke_id p), github_sprite_url (poke_id p)]"
    using split by (simp add: github_artwork_url_def github_sprite_url_def)
  moreover have "length (filter_boolean ?opt) \<le> 4"
    using length_filter_boolean [of ?opt] by (simp add: image_candidates_def)
  ultimately show ?thesis by blast
qed

text \<open>C7: loadPokemonImage, run to completion against any load behaviour, shows the first candidate URL that loads, with alt text name followed by sprite, and requests exactly the candidates before it and that one, in priority order; when none loads, it requests every candidate and leaves the image hidden\<close>

theorem load_pokemon_image_first_loadable:
  "load_pokemon_image loads p img =
     (case find loads (image_sources p) of
        Some u \<Rightarrow> (image_onload u (name p) (reset_image img),
                   takeWhile (\<lambda>v. \<not> loads v) (image_sources p) @ [u])
      | None \<Rightarrow> (handle_image_error (reset_image img), image_sources p))"
proof -
  have "image_sources p \<noteq> []"
    using image_sources_fallbacks [of p] by auto
  moreover have "try_load_image loads (image_sources p) 0 (name p) (reset_image img) =
     (case find loads (image_sources p) of
        Some u \<Rightarrow> (image_onload u (name p) (reset_image img),
                   takeWhile (\<lambda>v. \<not> loads v) (image_sources p) @ [u])
      | None \<Rightarrow> (handle_image_error (reset_image img), image_sources p))"
    using try_load_image_eq [of loads "image_sources p" 0] by (simp split: option.splits)
  ultimately show ?thesis
    by (simp add: load_pokemon_image_def Let_def)
qed

lemma digit_char_0 [simp]: "digit_char 0 = CHR ''0''"
  by (simp add: digit_char_def)

text \<open>C14: an identifier below 1000 is rendered as # followed by exactly its three decimal digits, hundreds first, with leading zeros\<close>

theorem id_text_small:
  "i < 1000 \<Longrightarrow>
   id_text i = [CHR ''#'', digit_char (i div 100), digit_char (i div 10 mod 10), digit_char (i mod 10)]"
proof -
  assume lt: "i < 1000"
  consider "i < 10" | "10 \<le> i" "i < 100" | "100 \<le> i" by linarith
  then show ?thesis
  proof cases
    case 1
    then show ?thesis by (simp add: id_text_def js_pad_start_def numeral_3_eq_3)
  next
    case 2
    then have "i div 10 < 10" "i div 100 = 0" by auto
    with 2 show ?thesis
      by (simp add: id_text_def js_pad_start_def nat_to_string_large [of i])
  next
    case 3
    with lt show ?thesis by (simp add: id_text_def js_pad_start_def nat_to_string_3)
  qed
qed

text \<open>C13: the rendered identifier of any size is # followed by decimal digits only, at least three of them (exactly the identifier's digits once it has three or more), and those digits read back as the identifier: zero padding loses nothing\<close>

theorem id_text_roundtrip:
  "hd (id_text i) = CHR ''#'' \<and> set (tl (id_text i)) \<subseteq> set ''0123456789''
   \<and> length (tl (id_text i)) = max 3 (length (nat_to_string i))
   \<and> string_to_nat (tl (id_text i)) = i"
proof -
  have "set (replicate (3 - length (nat_to_string i)) (CHR ''0'')) \<subseteq> set ''0123456789''"
    by (simp add: set_replicate_conv_if)
  then show ?thesis
    using nat_to_string_digits [of i]
    by (simp add: id_text_def js_pad_start_def string_to_nat_zeros string_to_nat_nat_to_string)
qed

text \<open>C15: the height text is the height in decimetres divided by ten with exactly one decimal digit, followed by m\<close>

theorem height_text_eq:
  "h < 10 ^ 22 \<Longrightarrow>
   height_text h = Some (nat_to_string (h div 10) @ ''.'' @ [digit_char (h mod 10)] @ '' m'')"
  using js_to_fixed_tenths [of h] by (simp add: height_text_def)

text \<open>C16: the weight text is the weight in hectograms divided by ten with exactly one decimal digit, followed by kg\<close>

theorem weight_text_eq:
  "w < 10 ^ 22 \<Longrightarrow>
   weight_text w = Some (nat_to_string (w div 10) @ ''.'' @ [digit_char (w mod 10)] @ '' kg'')"
  using js_to_fixed_tenths [of w] by (simp add: weight_text_def)

text \<open>C17: the base-experience text is N/A exactly when the record has no base experience or a base experience of 0 (the operand of || is falsy for both)\<close>

theorem exp_text_na_iff: "exp_text e = ''N/A'' \<longleftrightarrow> e = None \<or> e = Some 0"
proof (cases e)
  case None
  then show ?thesis by (simp add: exp_text_def)
next
  case (Some n)
  have "CHR ''N'' \<notin> set ''0123456789''" by simp
  then have "nat_to_string n \<noteq> ''N/A''"
    using nat_to_string_digits [of n] by auto
  with Some show ?thesis by (simp add: exp_text_def)
qed

theorem id_text_small_witness:
  "(25::nat) < 1000 \<and> id_text 25 = [CHR ''#'', digit_char 0, digit_char 2, digit_char 5]"
  using id_text_small [of 25] by simp

theorem height_text_eq_witness:
  "(70::nat) < 10 ^ 22 \<and>
   height_text 70 = Some (nat_to_string (70 div 10) @ ''.'' @ [digit_char (70 mod 10)] @ '' m'')"
  using height_text_eq [of 70] by simp

theorem weight_text_eq_witness:
  "(690::nat) < 10 ^ 22 \<and>
   weight_text 690 = Some (nat_to_string (690 div 10) @ ''.'' @ [digit_char (690 mod 10)] @ '' kg'')"
  using weight_text_eq [of 690] by simp

end
