(* ===== verification/View.thy ===== *)
theory View
  imports Formatter
begin

text \<open>
  The page state that \<open>src/app.js\<close> manipulates and its DOM helpers (lines 72--110):
  the \<open>show\<close> class of the \<open>loading\<close>, \<open>errorMessage\<close>, \<open>pokemonCard\<close> and
  \<open>helpSection\<close> sections, the \<open>disabled\<close> flag and label of \<open>searchBtn\<close>, the
  text of \<open>errorText\<close>, the value of \<open>pokemonInput\<close> and the card. Each helper is a
  function on this record. The spec's abstract display state (Idle, Loading, Error,
  Showing) is read from a page by \<open>display_of\<close> (by priority, on the pages of the
  invariant) and by \<open>view_display\<close> (defined only on pages without overlap);
  \<open>exclusive\<close> is the invariant that at most one of the three result sections is visible.
\<close>

record view =
  loading_shown :: bool
  error_shown :: bool
  card_shown :: bool
  help_shown :: bool
  search_disabled :: bool
  search_label :: js_string
  error_text :: js_string
  input_value :: js_string
  card :: card

definition hide_all_sections :: "view \<Rightarrow> view" where
  "hide_all_sections v =
     v\<lparr>loading_shown := False, error_shown := False, card_shown := False, help_shown := False\<rparr>"

definition show_loading :: "view \<Rightarrow> view" where
  "show_loading v =
     (hide_all_sections v)\<lparr>loading_shown := True, search_disabled := True,
                           search_label := ''Searching...''\<rparr>"

definition hide_loading :: "view \<Rightarrow> view" where
  "hide_loading v =
     v\<lparr>loading_shown := False, search_disabled := False, search_label := ''Search Pokemon''\<rparr>"

definition show_error :: "js_string \<Rightarrow> view \<Rightarrow> view" where
  "show_error msg v = (hide_all_sections v)\<lparr>error_text := msg, error_shown := True\<rparr>"

definition show_pokemon :: "pokemon \<Rightarrow> view \<Rightarrow> view" where
  "show_pokemon p v =
     (let v' = hide_all_sections v in v'\<lparr>card := populate_pokemon_data p (card v'), card_shown := True\<rparr>)"

definition show_help :: "view \<Rightarrow> view" where
  "show_help v = v\<lparr>help_shown := True\<rparr>"

definition hide_help :: "view \<Rightarrow> view" where
  "hide_help v = v\<lparr>help_shown := False\<rparr>"

lemmas view_defs [view_simps] = hide_all_sections_def show_loading_def hide_loading_def
  show_error_def show_pokemon_def show_help_def hide_help_def

subsection \<open>Abstract display state\<close>

datatype display = Idle | Loading | Error js_string | Showing card

definition display_of :: "view \<Rightarrow> display" where
  "display_of v =
     (if loading_shown v then Loading
      else if error_shown v then Error (error_text v)
      else if card_shown v then Showing (card v)
      else Idle)"

definition exclusive :: "view \<Rightarrow> bool" where
  "exclusive v \<longleftrightarrow>
     \<not> (loading_shown v \<and> error_shown v) \<and> \<not> (loading_shown v \<and> card_shown v)
     \<and> \<not> (error_shown v \<and> card_shown v)"

text \<open>The search button's flag and label change together.\<close>

definition button_consistent :: "view \<Rightarrow> bool" where
  "button_consistent v \<longleftrightarrow>
     search_label v = (if search_disabled v then ''Searching...'' else ''Search Pokemon'')"

text \<open>
  The abstraction of a page to the spec's display state, defined only on pages that show at
  most one of the three result sections: a page with two of them visible at once represents
  no display state (\<open>None\<close>). Unlike \<open>display_of\<close>, no priority order hides an overlap.
\<close>

definition view_display :: "view \<Rightarrow> display option" where
  "view_display v =
     (case (loading_shown v, error_shown v, card_shown v) of
        (False, False, False) \<Rightarrow> Some Idle
      | (True, False, False) \<Rightarrow> Some Loading
      | (False, True, False) \<Rightarrow> Some (Error (error_text v))
      | (False, False, True) \<Rightarrow> Some (Showing (card v))
      | _ \<Rightarrow> None)"

text \<open>The spec's transition for the end of loading: Loading becomes Idle, any other state stays.\<close>

definition stop_loading :: "display \<Rightarrow> display" where
  "stop_loading d = (case d of Loading \<Rightarrow> Idle | _ \<Rightarrow> d)"

subsection \<open>Each helper against the abstract state\<close>

text \<open>
  C19: the DOM helpers implement the spec's display-state transitions from every page, also
  from a page that shows two sections at once: showLoading leads to exactly Loading,
  showError(m) to exactly Error m, showPokemon(p) to exactly Showing the card populated from
  p; and on a page that represents a display state d, hideLoading leads to the state that
  ends the loading of d (Loading becomes Idle, any other state stays).
\<close>

theorem helpers_refine_display:
  "view_display (show_loading v) = Some Loading
   \<and> view_display (show_error msg v) = Some (Error msg)
   \<and> view_display (show_pokemon p v) = Some (Showing (populate_pokemon_data p (card v)))
   \<and> (view_display v = Some d \<longrightarrow> view_display (hide_loading v) = Some (stop_loading d))"
  by (auto simp: view_display_def stop_loading_def view_simps split: bool.splits)

lemma exclusive_helpers [intro]:
  "exclusive (show_loading v)" "exclusive (show_error msg v)" "exclusive (show_pokemon p v)"
  "exclusive v \<Longrightarrow> exclusive (hide_loading v)"
  "exclusive v \<Longrightarrow> exclusive (show_help v)" "exclusive v \<Longrightarrow> exclusive (hide_help v)"
  by (simp_all add: exclusive_def view_simps)

lemma button_consistent_helpers [intro]:
  "button_consistent (show_loading v)" "button_consistent (hide_loading v)"
  "button_consistent v \<Longrightarrow> button_consistent (show_error msg v)"
  "button_consistent v \<Longrightarrow> button_consistent (show_pokemon p v)"
  "button_consistent v \<Longrightarrow> button_consistent (show_help v)"
  "button_consistent v \<Longrightarrow> button_consistent (hide_help v)"
  by (simp_all add: button_consistent_def view_simps)

text \<open>A page with the error shown: the hypothesis of the hideLoading transition holds.\<close>

theorem helpers_refine_display_witness:
  "let v = \<lparr>loading_shown = False, error_shown = True, card_shown = False, help_shown = True,
            search_disabled = True, search_label = ''Searching...'', error_text = ''boom'',
            input_value = [], card = \<lparr>card_name = [], card_id = [],
              card_image = \<lparr>img_display = False, img_src = [], img_alt = []\<rparr>,
              card_height = None, card_weight = None, card_exp = [], card_types = [],
              card_abilities = []\<rparr>\<rparr>
   in view_display v = Some (Error ''boom'') \<and> view_display (hide_loading v) = Some (Error ''boom'')"
proof -
  note h = helpers_refine_display [where d = "Error ''boom''" and v = "\<lparr>loading_shown = False, error_shown = True, card_shown = False,
      help_shown = True, search_disabled = True, search_label = ''Searching...'', error_text = ''boom'',
      input_value = [], card = \<lparr>card_name = [], card_id = [],
        card_image = \<lparr>img_display = False, img_src = [], img_alt = []\<rparr>,
        card_height = None, card_weight = None, card_exp = [], card_types = [],
        card_abilities = []\<rparr>\<rparr>"]
  show ?thesis using h by (simp add: view_display_def stop_loading_def)
qed

end
