(* ===== verification/Fetcher.thy ===== *)
theory Fetcher
  imports Pokemon_Data
begin

text \<open>
  The record fetcher of \<open>src/app.js\<close>: \<open>fetchPokemon(query)\<close> (lines 160--172). It
  requests \<open>this.apiBase + query\<close> (the base is set in the constructor, line 5), throws
  an \<open>Error\<close> whose message is \<open>'404: Pokemon not found'\<close> on status 404 and
  \<open>'HTTP error! status: <status>'\<close> on any other status outside 200--299, and otherwise
  returns the parsed body. A thrown error is \<open>Inl\<close> of its \<open>message\<close>, the only part
  of it the caller reads; a rejected \<open>fetch\<close> or \<open>response.json()\<close> propagates with
  its own message.
\<close>

definition api_base :: url where
  "api_base = ''https://pokeapi.co/api/v2/pokemon/''"

definition fetch_url :: "js_string \<Rightarrow> url" where
  "fetch_url query = api_base @ query"

definition not_found_error :: js_string where
  "not_found_error = ''404: Pokemon not found''"

definition http_error :: "nat \<Rightarrow> js_string" where
  "http_error st = ''HTTP error! status: '' @ nat_to_string st"

definition fetch_pokemon :: "fetch_outcome \<Rightarrow> js_string + pokemon" where
  "fetch_pokemon out =
     (case out of
        Network_failure msg \<Rightarrow> Inl msg
      | Http_response st body \<Rightarrow>
          (if \<not> response_ok st then (if st = 404 then Inl not_found_error else Inl (http_error st))
           else (case body of Json p \<Rightarrow> Inr p | Json_syntax_error msg \<Rightarrow> Inl msg)))"

lemma fetch_pokemon_simps [simp]:
  "fetch_pokemon (Network_failure msg) = Inl msg"
  "fetch_pokemon (Http_response 404 body) = Inl not_found_error"
  "response_ok st \<Longrightarrow> fetch_pokemon (Http_response st (Json p)) = Inr p"
  "response_ok st \<Longrightarrow> fetch_pokemon (Http_response st (Json_syntax_error msg)) = Inl msg"
  "\<not> response_ok st \<Longrightarrow> st \<noteq> 404 \<Longrightarrow> fetch_pokemon (Http_response st body) = Inl (http_error st)"
  by (simp_all add: fetch_pokemon_def response_ok_def)

lemma string_404_digits: "''404'' = [digit_char 4, digit_char 0, digit_char 4]"
  by (simp add: digit_char_def)

lemma http_error_3digit:
  assumes "100 \<le> st" "st < 1000"
  shows "js_includes (http_error st) ''404'' \<longleftrightarrow> st = 404"
    and "\<not> js_includes (http_error st) ''network''"
proof -
  have d: "st div 100 < 10" "st div 10 mod 10 < 10" "st mod 10 < 10"
    using assms by auto
  have s: "http_error st = ''HTTP error! status: '' @
             [digit_char (st div 100), digit_char (st div 10 mod 10), digit_char (st mod 10)]"
    using assms by (simp add: http_error_def nat_to_string_3)
  have "js_includes (http_error st) ''404'' \<longleftrightarrow>
        [digit_char (st div 100), digit_char (st div 10 mod 10), digit_char (st mod 10)] = ''404''"
    unfolding s by auto
  also have "\<dots> \<longleftrightarrow> st div 100 = 4 \<and> st div 10 mod 10 = 0 \<and> st mod 10 = 4"
    unfolding string_404_digits using d by (simp add: digit_char_inj)
  also have "\<dots> \<longleftrightarrow> st = 404"
  proof -
    have "st div 10 = 10 * (st div 10 div 10) + st div 10 mod 10"
      and "st div 10 div 10 = st div 100"
      and "st = 10 * (st div 10) + st mod 10"
      by (simp_all add: div_mult2_eq)
    then have "st = 100 * (st div 100) + 10 * (st div 10 mod 10) + st mod 10"
      by linarith
    then show ?thesis by auto
  qed
  finally show "js_includes (http_error st) ''404'' \<longleftrightarrow> st = 404" .
  show "\<not> js_includes (http_error st) ''network''"
    unfolding s by simp
qed

end
