(* ===== verification/Controller.thy ===== *)
theory Controller
  imports View Fetcher
begin

text \<open>
  The request controller of \<open>src/app.js\<close> and the event loop around it. The async
  handlers \<open>searchPokemon\<close> and \<open>getRandomPokemon\<close> are cut at their
  \<open>await\<close>: the synchronous part runs when the event arrives and issues a fetch (a
  ticket in \<open>pending\<close>); the continuation (\<open>showPokemon\<close> or \<open>showError\<close>,
  then the \<open>finally\<close> clause) runs when that fetch settles, which is an event of its own,
  so that any interleaving of user events and completions is a list of events. An image
  chain of \<open>tryLoadImage\<close> is likewise a pending ticket advanced by the
  \<open>onload\<close>/\<open>onerror\<close> callbacks. \<open>fetch_log\<close> and \<open>image_log\<close> record every
  URL handed to the network, in order.
\<close>

datatype origin = From_search js_string | From_random

record request =
  req_ticket :: nat
  req_origin :: origin

record chain =
  chain_ticket :: nat
  chain_sources :: "url list"
  chain_index :: nat
  chain_name :: js_string

record app =
  view :: view
  input_focused :: bool
  pending :: "request list"
  chains :: "chain list"
  next_ticket :: nat
  fetch_log :: "url list"
  image_log :: "url list"

text \<open>
  The events of the page. \<open>Submit_form\<close> is a \<open>submit\<close> event reaching the form's
  listener; it is allowed in every state (a superset of what a user can trigger, so the
  invariants below hold a fortiori). \<open>Key_press k\<close> is a key pressed in the input: the
  \<open>keypress\<close> listener and then the browser's default action for Enter.
\<close>

datatype event =
    Set_input js_string
  | Submit_form
  | Key_press js_string
  | Click_random rat
  | Click_help
  | Click_close_help
  | Click_help_section bool
  | Key_down js_string bool bool rat
  | Fetch_settled nat fetch_outcome
  | Image_settled nat bool

subsection \<open>Messages\<close>

definition empty_query_message :: js_string where
  "empty_query_message = ''Please enter a Pokemon name or ID number.''"

definition not_found_message :: "js_string \<Rightarrow> js_string" where
  "not_found_message q =
     ''Pokemon \"'' @ q @ ''\" not found. Please check the spelling or try a different name/ID.''"

definition network_message :: js_string where
  "network_message = ''Network error. Please check your internet connection and try again.''"

definition generic_message :: js_string where
  "generic_message = ''An error occurred while fetching Pokemon data. Please try again.''"

definition random_failure_message :: js_string where
  "random_failure_message = ''Unable to fetch random Pokemon. Please try again.''"

text \<open>The \<open>catch\<close> block of \<open>searchPokemon\<close>: substring tests on \<open>error.message\<close>.\<close>

definition classify_error :: "js_string \<Rightarrow> js_string \<Rightarrow> js_string" where
  "classify_error q msg =
     (if js_includes msg ''404'' then not_found_message q
      else if js_includes msg ''network'' then network_message
      else generic_message)"

subsection \<open>Starting a request\<close>

definition normalize_query :: "js_string \<Rightarrow> js_string" where
  "normalize_query s = js_to_lower (js_trim s)"

text \<open>The synchronous part of \<open>fetchPokemon(query)\<close>: \<open>fetch\<close> is called.\<close>

definition issue_fetch :: "origin \<Rightarrow> js_string \<Rightarrow> app \<Rightarrow> app" where
  "issue_fetch org q a =
     a\<lparr>pending := pending a @ [\<lparr>req_ticket = next_ticket a, req_origin = org\<rparr>],
       next_ticket := Suc (next_ticket a),
       fetch_log := fetch_log a @ [fetch_url q]\<rparr>"

definition search_pokemon :: "app \<Rightarrow> app" where
  "search_pokemon a =
     (let q = normalize_query (input_value (view a))
      in if q = [] then a\<lparr>view := show_error empty_query_message (view a)\<rparr>
         else issue_fetch (From_search q) q (a\<lparr>view := show_loading (view a)\<rparr>))"

text \<open>\<open>Math.floor(Math.random() * 1010) + 1\<close> for the value \<open>r\<close> of \<open>Math.random()\<close>.\<close>

definition random_id :: "rat \<Rightarrow> nat" where
  "random_id r = nat \<lfloor>r * 1010\<rfloor> + 1"

definition get_random_pokemon :: "rat \<Rightarrow> app \<Rightarrow> app" where
  "get_random_pokemon r a =
     issue_fetch From_random (nat_to_string (random_id r)) (a\<lparr>view := show_loading (view a)\<rparr>)"

subsection \<open>Completing a request\<close>

definition update_image :: "(image \<Rightarrow> image) \<Rightarrow> view \<Rightarrow> view" where
  "update_image f v = v\<lparr>card := (card v)\<lparr>card_image := f (card_image (card v))\<rparr>\<rparr>"

text \<open>
  \<open>showPokemon\<close> with the chain it starts: when there is a candidate,
  \<open>tryLoadImage(sources, 0, pokemon)\<close> requests \<open>sources[0]\<close>.
\<close>

definition show_pokemon_app :: "pokemon \<Rightarrow> app \<Rightarrow> app" where
  "show_pokemon_app p a =
     (let a' = a\<lparr>view := show_pokemon p (view a)\<rparr>; srcs = image_sources p
      in if srcs = [] then a'
         else a'\<lparr>chains := chains a' @ [\<lparr>chain_ticket = next_ticket a', chain_sources = srcs,
                                        chain_index = 0, chain_name = name p\<rparr>],
                 next_ticket := Suc (next_ticket a'),
                 image_log := image_log a' @ [srcs ! 0]\<rparr>)"

text \<open>The continuation of \<open>searchPokemon\<close> after \<open>await this.fetchPokemon(query)\<close>.\<close>

definition search_settle :: "js_string \<Rightarrow> fetch_outcome \<Rightarrow> app \<Rightarrow> app" where
  "search_settle q out a =
     (case fetch_pokemon out of
        Inr p \<Rightarrow>
          (let a' = show_pokemon_app p a
           in a'\<lparr>view := hide_loading ((view a')\<lparr>input_value := []\<rparr>)\<rparr>)
      | Inl msg \<Rightarrow> a\<lparr>view := hide_loading (show_error (classify_error q msg) (view a))\<rparr>)"

text \<open>The continuation of \<open>getRandomPokemon\<close>.\<close>

definition random_settle :: "fetch_outcome \<Rightarrow> app \<Rightarrow> app" where
  "random_settle out a =
     (case fetch_pokemon out of
        Inr p \<Rightarrow> (let a' = show_pokemon_app p a in a'\<lparr>view := hide_loading (view a')\<rparr>)
      | Inl msg \<Rightarrow> a\<lparr>view := hide_loading (show_error random_failure_message (view a))\<rparr>)"

definition fetch_settled :: "nat \<Rightarrow> fetch_outcome \<Rightarrow> app \<Rightarrow> app" where
  "fetch_settled t out a =
     (case find (\<lambda>r. req_ticket r = t) (pending a) of
        None \<Rightarrow> a
      | Some r \<Rightarrow>
          (let a' = a\<lparr>pending := filter (\<lambda>r. req_ticket r \<noteq> t) (pending a)\<rparr>
           in case req_origin r of
                From_search q \<Rightarrow> search_settle q out a'
              | From_random \<Rightarrow> random_settle out a'))"

text \<open>
  \<open>img.onload\<close> and \<open>img.onerror\<close> of the chain with ticket \<open>c\<close>; on error,
  \<open>tryLoadImage(sources, index + 1, pokemon)\<close> either gives up
  (\<open>handleImageError\<close>) or requests the next candidate.
\<close>

definition image_settled :: "nat \<Rightarrow> bool \<Rightarrow> app \<Rightarrow> app" where
  "image_settled c ok a =
     (case find (\<lambda>ch. chain_ticket ch = c) (chains a) of
        None \<Rightarrow> a
      | Some ch \<Rightarrow>
          (let rest = filter (\<lambda>ch. chain_ticket ch \<noteq> c) (chains a);
               i = chain_index ch; srcs = chain_sources ch
           in if ok then a\<lparr>chains := rest,
                           view := update_image (image_onload (srcs ! i) (chain_name ch)) (view a)\<rparr>
              else if length srcs \<le> Suc i
              then a\<lparr>chains := rest, view := update_image handle_image_error (view a)\<rparr>
              else a\<lparr>chains := map (\<lambda>x. if chain_ticket x = c then x\<lparr>chain_index := Suc i\<rparr> else x)
                                   (chains a),
                     image_log := image_log a @ [srcs ! Suc i]\<rparr>))"

subsection \<open>Event handlers and the step function\<close>

text \<open>
  Implicit submission (HTML, form submission): Enter in the form's text input submits the
  form as the default action of the key event, after its listeners ran, unless the form's
  default button, the submit button \<open>searchBtn\<close>, is disabled; then nothing happens.
\<close>

definition implicit_submit :: "app \<Rightarrow> app" where
  "implicit_submit a = (if search_disabled (view a) then a else search_pokemon a)"

text \<open>
  The global \<open>keydown\<close> listener (lines 338--358): Ctrl/Cmd+K focuses the input,
  Ctrl/Cmd+R clicks the random button (whose handler draws \<open>r\<close>), Escape clicks the
  close button while the help is shown.
\<close>

definition shortcut :: "js_string \<Rightarrow> bool \<Rightarrow> bool \<Rightarrow> rat \<Rightarrow> app \<Rightarrow> app" where
  "shortcut key ctrl meta r a =
     (let a1 = (if (ctrl \<or> meta) \<and> key = ''k'' then a\<lparr>input_focused := True\<rparr> else a);
          a2 = (if (ctrl \<or> meta) \<and> key = ''r'' then get_random_pokemon r a1 else a1)
      in if key = ''Escape'' \<and> help_shown (view a2) then a2\<lparr>view := hide_help (view a2)\<rparr> else a2)"

fun app_step :: "app \<Rightarrow> event \<Rightarrow> app" where
  "app_step a (Set_input s) = a\<lparr>view := (view a)\<lparr>input_value := s\<rparr>\<rparr>"
| "app_step a Submit_form = search_pokemon a"
| "app_step a (Key_press k) = (if k = ''Enter'' then implicit_submit (search_pokemon a) else a)"
| "app_step a (Click_random r) = get_random_pokemon r a"
| "app_step a Click_help = a\<lparr>view := show_help (view a)\<rparr>"
| "app_step a Click_close_help = a\<lparr>view := hide_help (view a)\<rparr>"
| "app_step a (Click_help_section on_backdrop) =
     (if on_backdrop then a\<lparr>view := hide_help (view a)\<rparr> else a)"
| "app_step a (Key_down k ctrl meta r) = shortcut k ctrl meta r a"
| "app_step a (Fetch_settled t out) = fetch_settled t out a"
| "app_step a (Image_settled c ok) = image_settled c ok a"

fun app_run :: "app \<Rightarrow> event list \<Rightarrow> app" where
  "app_run a [] = a"
| "app_run a (e # es) = app_run (app_step a e) es"

text \<open>
  The page after the constructor: \<open>hideAllSections()\<close> over the initial markup, whose
  search button is enabled and labelled \<open>Search Pokemon\<close>, with an empty input.
\<close>

definition empty_card :: card where
  "empty_card =
     \<lparr>card_name = [], card_id = [], card_image = \<lparr>img_display = False, img_src = [], img_alt = []\<rparr>,
      card_height = Some [], card_weight = Some [], card_exp = [], card_types = [],
      card_abilities = []\<rparr>"

definition init_app :: app where
  "init_app =
     \<lparr>view = hide_all_sections
               \<lparr>loading_shown = False, error_shown = False, card_shown = False, help_shown = False,
                search_disabled = False, search_label = ''Search Pokemon'', error_text = [],
                input_value = [], card = empty_card\<rparr>,
      input_focused = False, pending = [], chains = [], next_ticket = 0, fetch_log = [],
      image_log = []\<rparr>"

inductive reachable :: "app \<Rightarrow> bool" where
  start: "reachable init_app"
| step: "reachable a \<Longrightarrow> reachable (app_step a e)"

subsection \<open>The controller invariant\<close>

definition view_ok :: "app \<Rightarrow> bool" where
  "view_ok a \<longleftrightarrow>
     exclusive (view a) \<and> button_consistent (view a)
     \<and> (loading_shown (view a) \<longrightarrow> pending a \<noteq> [])
     \<and> (pending a = [] \<longrightarrow> \<not> search_disabled (view a))"

definition tickets_ok :: "app \<Rightarrow> bool" where
  "tickets_ok a \<longleftrightarrow>
     (\<forall>r \<in> set (pending a). req_ticket r < next_ticket a)
     \<and> (\<forall>ch \<in> set (chains a). chain_ticket ch < next_ticket a)
     \<and> distinct (map chain_ticket (chains a))"

definition app_inv :: "app \<Rightarrow> bool" where
  "app_inv a \<longleftrightarrow> view_ok a \<and> tickets_ok a"

lemma view_show_pokemon_app [simp]: "view (show_pokemon_app p a) = show_pokemon p (view a)"
  by (simp add: show_pokemon_app_def Let_def)

lemma pending_show_pokemon_app [simp]: "pending (show_pokemon_app p a) = pending a"
  by (simp add: show_pokemon_app_def Let_def)

lemma show_pokemon_app_view [simp]:
  "show_pokemon_app p (a\<lparr>view := v\<rparr>) = (show_pokemon_app p a)\<lparr>view := show_pokemon p v\<rparr>"
  by (simp add: show_pokemon_app_def Let_def)

lemma issue_fetch_simps [simp]:
  "view (issue_fetch org q a) = view a" "pending (issue_fetch org q a) \<noteq> []"
  by (simp_all add: issue_fetch_def)

lemma map_chain_ticket_update [simp]:
  "map chain_ticket (map (\<lambda>x. if chain_ticket x = c then x\<lparr>chain_index := i\<rparr> else x) xs) =
   map chain_ticket xs"
  by (induction xs) auto

lemma tickets_ok_view [simp]: "tickets_ok (a\<lparr>view := v\<rparr>) = tickets_ok a"
  by (simp add: tickets_ok_def)

lemma tickets_ok_focus [simp]: "tickets_ok (a\<lparr>input_focused := b\<rparr>) = tickets_ok a"
  by (simp add: tickets_ok_def)

lemma tickets_ok_issue: "tickets_ok a \<Longrightarrow> tickets_ok (issue_fetch org q a)"
  by (auto simp: tickets_ok_def issue_fetch_def)

lemma tickets_ok_show_pokemon_app: "tickets_ok a \<Longrightarrow> tickets_ok (show_pokemon_app p a)"
  by (auto simp: tickets_ok_def show_pokemon_app_def Let_def)

lemma tickets_ok_filter_pending:
  "tickets_ok a \<Longrightarrow> tickets_ok (a\<lparr>pending := filter P (pending a)\<rparr>)"
  by (simp add: tickets_ok_def)

lemma tickets_ok_chains_same:
  "tickets_ok a \<Longrightarrow> map chain_ticket cs = map chain_ticket (chains a) \<Longrightarrow>
   tickets_ok (a\<lparr>chains := cs\<rparr>)"
proof -
  assume t: "tickets_ok a" and m: "map chain_ticket cs = map chain_ticket (chains a)"
  then have "chain_ticket ` set cs = chain_ticket ` set (chains a)"
    by (metis list.set_map)
  then have "\<forall>ch \<in> set cs. chain_ticket ch < next_ticket a"
    using t unfolding tickets_ok_def by (metis imageE imageI)
  with t m show ?thesis by (simp add: tickets_ok_def)
qed

lemma tickets_ok_chains_filter:
  "tickets_ok a \<Longrightarrow> tickets_ok (a\<lparr>chains := filter P (chains a)\<rparr>)"
  by (simp add: tickets_ok_def distinct_map_filter)

lemma tickets_ok_image_log [simp]: "tickets_ok (a\<lparr>image_log := l\<rparr>) = tickets_ok a"
  by (simp add: tickets_ok_def)

lemma tickets_ok_image: "tickets_ok a \<Longrightarrow> tickets_ok (image_settled c ok a)"
  by (simp add: image_settled_def Let_def tickets_ok_chains_filter tickets_ok_chains_same
      split: option.splits)

lemma view_flags_input [simp]:
  "exclusive (v\<lparr>input_value := s\<rparr>) = exclusive v"
  "button_consistent (v\<lparr>input_value := s\<rparr>) = button_consistent v"
  by (simp_all add: exclusive_def button_consistent_def)

lemma view_ok_settled:
  "exclusive v \<Longrightarrow> view_ok (a\<lparr>view := hide_loading v\<rparr>)"
  by (simp add: view_ok_def exclusive_helpers button_consistent_helpers)
    (simp add: view_simps)

lemma app_inv_settled: "app_inv a \<Longrightarrow> app_inv (fetch_settled t out a)"
  by (auto simp: app_inv_def fetch_settled_def search_settle_def random_settle_def Let_def
      view_ok_settled exclusive_helpers tickets_ok_filter_pending tickets_ok_show_pokemon_app
      split: option.splits origin.splits sum.splits)

lemma app_inv_search: "app_inv a \<Longrightarrow> app_inv (search_pokemon a)"
  by (auto simp: app_inv_def view_ok_def search_pokemon_def Let_def tickets_ok_issue
      exclusive_helpers button_consistent_helpers) (auto simp: view_simps)

lemma app_inv_random: "app_inv a \<Longrightarrow> app_inv (get_random_pokemon r a)"
  by (auto simp: app_inv_def view_ok_def get_random_pokemon_def tickets_ok_issue
      exclusive_helpers button_consistent_helpers)

lemma app_inv_image: "app_inv a \<Longrightarrow> app_inv (image_settled c ok a)"
proof -
  assume "app_inv a"
  moreover have "view_ok (image_settled c ok a) = view_ok a"
    by (simp add: image_settled_def Let_def view_ok_def update_image_def exclusive_def
        button_consistent_def split: option.splits)
  ultimately show ?thesis by (simp add: app_inv_def tickets_ok_image)
qed

lemma app_inv_view_updates:
  "app_inv (a\<lparr>input_focused := b\<rparr>) = app_inv a"
  "app_inv a \<Longrightarrow> app_inv (a\<lparr>view := show_help (view a)\<rparr>)"
  "app_inv a \<Longrightarrow> app_inv (a\<lparr>view := hide_help (view a)\<rparr>)"
  "app_inv a \<Longrightarrow> app_inv (a\<lparr>view := (view a)\<lparr>input_value := s\<rparr>\<rparr>)"
  by (auto simp: app_inv_def view_ok_def exclusive_def button_consistent_def view_simps)

lemma app_inv_shortcut: "app_inv a \<Longrightarrow> app_inv (shortcut k ctrl meta r a)"
  unfolding shortcut_def Let_def
  by (simp add: app_inv_random app_inv_view_updates)

lemma app_inv_implicit_submit: "app_inv a \<Longrightarrow> app_inv (implicit_submit a)"
  by (simp add: implicit_submit_def app_inv_search)

lemma app_inv_step: "app_inv a \<Longrightarrow> app_inv (app_step a e)"
  by (cases e) (simp_all add: app_inv_search app_inv_random app_inv_settled app_inv_image
                 app_inv_shortcut app_inv_view_updates app_inv_implicit_submit)

lemma app_inv_init: "app_inv init_app"
  by (simp add: app_inv_def view_ok_def tickets_ok_def init_app_def exclusive_def
      button_consistent_def view_simps)

lemma reachable_app_inv: "reachable a \<Longrightarrow> app_inv a"
  by (induction rule: reachable.induct) (auto intro: app_inv_init app_inv_step)

text \<open>No event cancels an image chain: only its own callbacks remove it.\<close>

lemma chain_kept_search: "ch \<in> set (chains a) \<Longrightarrow> ch \<in> set (chains (search_pokemon a))"
  by (simp add: search_pokemon_def Let_def issue_fetch_def)

lemma chain_kept_show_pokemon_app: "ch \<in> set (chains a) \<Longrightarrow> ch \<in> set (chains (show_pokemon_app p a))"
  by (simp add: show_pokemon_app_def Let_def)

lemma chain_kept_settled: "ch \<in> set (chains a) \<Longrightarrow> ch \<in> set (chains (fetch_settled t out a))"
  by (simp add: fetch_settled_def search_settle_def random_settle_def Let_def chain_kept_show_pokemon_app
      split: option.splits origin.splits sum.splits)

lemma chain_kept_image:
  "ch \<in> set (chains a) \<Longrightarrow> chain_ticket ch \<noteq> c \<Longrightarrow> ch \<in> set (chains (image_settled c ok a))"
  by (auto simp: image_settled_def Let_def split: option.splits)

lemma chain_kept_step:
  "ch \<in> set (chains a) \<Longrightarrow> (\<forall>ok. e \<noteq> Image_settled (chain_ticket ch) ok) \<Longrightarrow>
   ch \<in> set (chains (app_step a e))"
  by (cases e) (auto simp: chain_kept_search chain_kept_settled chain_kept_image implicit_submit_def
      shortcut_def Let_def get_random_pokemon_def issue_fetch_def)

subsection \<open>Properties of the controller\<close>

lemma normalize_query_empty_iff:
  "normalize_query s = [] \<longleftrightarrow> (\<forall>c \<in> set s. js_whitespace c)"
  by (simp add: normalize_query_def js_to_lower_def js_trim_empty_iff)

lemma fresh_ticket_find:
  "\<forall>r \<in> set xs. req_ticket r < n \<Longrightarrow>
   find (\<lambda>r. req_ticket r = n) (xs @ [\<lparr>req_ticket = n, req_origin = org\<rparr>]) =
   Some \<lparr>req_ticket = n, req_origin = org\<rparr>"
  by (induction xs) auto

lemma fresh_ticket_filter:
  "\<forall>r \<in> set xs. req_ticket r < n \<Longrightarrow> filter (\<lambda>r. req_ticket r \<noteq> n) xs = xs"
  by (induction xs) auto

lemma reachable_tickets:
  "reachable a \<Longrightarrow> \<forall>r \<in> set (pending a). req_ticket r < next_ticket a"
  using reachable_app_inv by (simp add: app_inv_def tickets_ok_def)

lemma reachable_run: "reachable a \<Longrightarrow> reachable (app_run a es)"
  by (induction es arbitrary: a) (auto intro: reachable.step)

text \<open>The lifecycle of a search up to the completion of its fetch.\<close>

lemma search_round_trip:
  assumes "reachable a" "normalize_query (input_value (view a)) = q" "q \<noteq> []"
  shows "app_run a [Submit_form, Fetch_settled (next_ticket a) out] =
           search_settle q out
             ((issue_fetch (From_search q) q (a\<lparr>view := show_loading (view a)\<rparr>))\<lparr>pending := pending a\<rparr>)"
proof -
  have fresh: "\<forall>r \<in> set (pending a). req_ticket r < next_ticket a"
    using assms(1) by (rule reachable_tickets)
  have "search_pokemon a = issue_fetch (From_search q) q (a\<lparr>view := show_loading (view a)\<rparr>)"
    using assms(2,3) by (simp add: search_pokemon_def)
  then show ?thesis
    using fresh by (simp add: fetch_settled_def issue_fetch_def fresh_ticket_find fresh_ticket_filter)
qed

text \<open>C1: a search for a non-blank input, from any reachable page, issues exactly one fetch of the API base followed by the trimmed lower-cased query; when that fetch returns a 2xx JSON record, the page shows the card populated from the record, the spinner is gone, the button is enabled again and the input is cleared\<close>

theorem search_success:
  assumes "reachable a" "normalize_query (input_value (view a)) = q" "q \<noteq> []" "response_ok st"
  shows "let a' = app_run a [Submit_form, Fetch_settled (next_ticket a) (Http_response st (Json p))]
         in display_of (view a') = Showing (populate_pokemon_data p (card (view a)))
            \<and> \<not> search_disabled (view a') \<and> input_value (view a') = []
            \<and> fetch_log a' = fetch_log a @ [fetch_url q] \<and> pending a' = pending a"
  using search_round_trip [OF assms(1-3)] assms(4)
  by (simp add: search_settle_def display_of_def view_simps show_pokemon_app_def Let_def
      issue_fetch_def)

text \<open>C4: when the fetch of a search answers 404, the page shows the not-found message, which contains the query, and the button is enabled again; the input keeps its text\<close>

theorem search_not_found:
  assumes "reachable a" "normalize_query (input_value (view a)) = q" "q \<noteq> []"
  shows "let a' = app_run a [Submit_form, Fetch_settled (next_ticket a) (Http_response 404 body)]
         in display_of (view a') = Error (not_found_message q)
            \<and> \<not> search_disabled (view a') \<and> input_value (view a') = input_value (view a)
            \<and> js_includes (error_text (view a')) q"
proof -
  have "js_includes (not_found_message q) q"
    unfolding js_includes_append_iff not_found_message_def by (metis append.assoc)
  moreover have "js_includes not_found_error ''404''"
    by (simp add: not_found_error_def)
  ultimately show ?thesis
    using search_round_trip [OF assms(1-3)]
    by (simp add: search_settle_def classify_error_def display_of_def view_simps issue_fetch_def)
qed

text \<open>C3: submitting an empty or whitespace-only input shows the prompt to enter a name or ID and changes nothing else: no fetch is issued and no request becomes pending\<close>

theorem search_empty_query:
  "\<forall>c \<in> set (input_value (view a)). js_whitespace c \<Longrightarrow>
   app_step a Submit_form = a\<lparr>view := show_error empty_query_message (view a)\<rparr>"
  by (simp add: search_pokemon_def normalize_query_empty_iff [symmetric])

text \<open>C11: a failed HTTP status of three digits other than 404 makes the search show the generic error message: the thrown message contains neither 404 nor network\<close>

theorem http_error_classified_generic:
  "100 \<le> st \<Longrightarrow> st < 1000 \<Longrightarrow> st \<noteq> 404 \<Longrightarrow>
   classify_error q (http_error st) = generic_message"
  by (simp add: classify_error_def http_error_3digit)

lemma random_id_bounds: "0 \<le> r \<Longrightarrow> r < 1 \<Longrightarrow> 1 \<le> random_id r \<and> random_id r \<le> 1010"
proof -
  assume "0 \<le> r" "r < 1"
  then have "0 \<le> r * 1010" "r * 1010 < 1010" by simp_all
  then have "0 \<le> \<lfloor>r * 1010\<rfloor>" "\<lfloor>r * 1010\<rfloor> < 1010"
    by (simp_all add: floor_less_iff)
  then have "nat \<lfloor>r * 1010\<rfloor> < 1010"
    by (simp add: nat_less_iff)
  then show ?thesis by (simp add: random_id_def)
qed

text \<open>C10: every identifier from 1 to 1010 is drawn by getRandomPokemon for some value of Math.random() in [0, 1)\<close>

theorem random_id_onto: "1 \<le> k \<Longrightarrow> k \<le> 1010 \<Longrightarrow> random_id ((of_nat k - 1) / 1010) = k"
proof -
  assume "1 \<le> k" "k \<le> 1010"
  have "(of_nat k - 1) / 1010 * 1010 = (of_int (int k - 1) :: rat)" by simp
  then have "\<lfloor>(of_nat k - 1) / 1010 * (1010 :: rat)\<rfloor> = int k - 1"
    by (simp only: floor_of_int)
  then show ?thesis
    unfolding random_id_def using \<open>1 \<le> k\<close> by simp
qed

lemma show_error_idem [simp]: "show_error m (show_error m v) = show_error m v"
  by (simp add: view_simps)

text \<open>
  C12: pressing Enter in the input has exactly the effect of one call of searchPokemon, in
  every state: for a non-blank query the keypress listener's call disables the submit
  button before the browser's implicit submission, which is therefore suppressed, and for a
  blank query the submission repeats the same prompt
\<close>

theorem enter_single_search: "app_step a (Key_press ''Enter'') = search_pokemon a"
  by (simp add: implicit_submit_def search_pokemon_def Let_def issue_fetch_def view_simps)

text \<open>C5: in every reachable page state at most one of the loading indicator, the error message and the card is shown\<close>

theorem reachable_exclusive: "reachable a \<Longrightarrow> exclusive (view a)"
  using reachable_app_inv by (simp add: app_inv_def view_ok_def)

text \<open>C6: in every reachable state in which no fetch is in flight, the loading indicator is hidden and the search button is enabled and labelled Search Pokemon: the finally clauses always clean up\<close>

theorem reachable_idle_cleanup:
  "reachable a \<Longrightarrow> pending a = [] \<Longrightarrow>
   \<not> loading_shown (view a) \<and> \<not> search_disabled (view a) \<and> search_label (view a) = ''Search Pokemon''"
  using reachable_app_inv by (auto simp: app_inv_def view_ok_def button_consistent_def)

text \<open>C9: a click on the random button issues exactly one fetch, of the API base followed by the decimal string of an identifier between 1 and 1010, and shows the loading state\<close>

theorem random_fetch_in_range:
  assumes "0 \<le> r" "r < 1"
  shows "\<exists>k. 1 \<le> k \<and> k \<le> 1010
             \<and> fetch_log (app_step a (Click_random r)) = fetch_log a @ [fetch_url (nat_to_string k)]
             \<and> display_of (view (app_step a (Click_random r))) = Loading"
  using random_id_bounds [OF assms]
  by (auto simp: get_random_pokemon_def issue_fetch_def display_of_def view_simps)

text \<open>
  C20: the catch block of searchPokemon classifies by substring, so a response with any 2xx
  status whose body is not JSON, rejected by response.json() with any message that mentions
  404 (Chrome's names the position of the bad token), is reported as the query not being
  found
\<close>

theorem json_error_reported_not_found:
  "response_ok st \<Longrightarrow> js_includes m ''404'' \<Longrightarrow>
   search_settle q (Http_response st (Json_syntax_error m)) a =
   a\<lparr>view := hide_loading (show_error (not_found_message q) (view a))\<rparr>"
  by (simp add: search_settle_def classify_error_def)

text \<open>
  C21: when the fetch of any search settles, whatever the page showed before (the card or
  error of a later search included), it shows the card of the fetched record or the error
  the catch block chose: the last fetch to settle wins, not the last search started.
\<close>

theorem settle_overrides_display:
  assumes "find (\<lambda>r. req_ticket r = t) (pending a) = Some r" "req_origin r = From_search q"
  shows "display_of (view (fetch_settled t out a)) =
           (case fetch_pokemon out of
              Inr p \<Rightarrow> Showing (populate_pokemon_data p (card (view a)))
            | Inl msg \<Rightarrow> Error (classify_error q msg))"
  using assms
  by (simp add: fetch_settled_def search_settle_def display_of_def view_simps split: sum.splits)

text \<open>The lifecycle of a random draw up to the completion of its fetch.\<close>

lemma random_round_trip:
  assumes "reachable a"
  shows "app_run a [Click_random r, Fetch_settled (next_ticket a) out] =
           random_settle out
             ((issue_fetch From_random (nat_to_string (random_id r))
                 (a\<lparr>view := show_loading (view a)\<rparr>))\<lparr>pending := pending a\<rparr>)"
  using reachable_tickets [OF assms]
  by (simp add: get_random_pokemon_def fetch_settled_def issue_fetch_def fresh_ticket_find
      fresh_ticket_filter)

text \<open>
  C22: when the fetch of a random draw fails, for any reason, the page shows the fixed
  message for random failures and the button is enabled again; exactly one fetch was issued
\<close>

theorem random_failure_message_shown:
  assumes "reachable a" "fetch_pokemon out = Inl msg"
  shows "let a' = app_run a [Click_random r, Fetch_settled (next_ticket a) out]
         in display_of (view a') = Error random_failure_message \<and> \<not> search_disabled (view a')
            \<and> fetch_log a' = fetch_log a @ [fetch_url (nat_to_string (random_id r))]"
  using random_round_trip [OF assms(1)] assms(2)
  by (simp add: random_settle_def display_of_def view_simps issue_fetch_def)

text \<open>C23: the keyboard shortcut Ctrl+R does exactly what a click on the random button does\<close>

theorem ctrl_r_random:
  "app_step a (Key_down ''r'' True False r) = app_step a (Click_random r)"
  by (simp add: shortcut_def Let_def get_random_pokemon_def issue_fetch_def view_simps)

text \<open>
  C24: the query a search sends is trimmed and lower-cased: when it is not empty it neither
  starts nor ends with white space and it holds no upper-case ASCII letter
\<close>

theorem normalize_query_shape:
  "normalize_query s \<noteq> [] \<Longrightarrow>
   \<not> js_whitespace (hd (normalize_query s)) \<and> \<not> js_whitespace (last (normalize_query s))
   \<and> list_all (\<lambda>c. \<not> (65 \<le> ascii_code c \<and> ascii_code c \<le> 90)) (normalize_query s)"
proof -
  assume ne: "normalize_query s \<noteq> []"
  then have t: "js_trim s \<noteq> []" by (simp add: normalize_query_def js_to_lower_def)
  show ?thesis
    using js_trim_edges [OF t] t
    by (simp add: normalize_query_def js_to_lower_def hd_map last_map list_all_iff)
      (use to_lower_char_not_upper in blast)
qed

subsection \<open>Witnesses\<close>

text \<open>
  Concrete pages on which the hypotheses of the properties above hold: the page after typing
  into the input, the page while a search is in flight, and the page after that search failed.
\<close>

definition sample_pokemon :: pokemon where
  "sample_pokemon =
     \<lparr>name = ''pikachu'', poke_id = 25, sprites = None, height = 4, weight = 60,
      base_experience = Some 112, types = [\<lparr>type_ref = \<lparr>resource_name = ''electric''\<rparr>\<rparr>],
      abilities = [\<lparr>ability_ref = \<lparr>resource_name = ''static''\<rparr>\<rparr>,
                   \<lparr>ability_ref = \<lparr>resource_name = ''lightning-rod''\<rparr>\<rparr>]\<rparr>"

definition typed_page :: "js_string \<Rightarrow> app" where
  "typed_page s = app_step init_app (Set_input s)"

lemma typed_page_reachable: "reachable (typed_page s)"
  unfolding typed_page_def by (rule reachable.step [OF reachable.start])

lemma typed_page_input [simp]: "input_value (view (typed_page s)) = s"
  by (simp add: typed_page_def)

theorem search_success_witness:
  "reachable (typed_page '' Pikachu '') \<and>
   normalize_query (input_value (view (typed_page '' Pikachu ''))) = ''pikachu'' \<and>
   ''pikachu'' \<noteq> [] \<and> response_ok 200 \<and>
   (let a' = app_run (typed_page '' Pikachu '')
               [Submit_form, Fetch_settled (next_ticket (typed_page '' Pikachu ''))
                               (Http_response 200 (Json sample_pokemon))]
    in display_of (view a') = Showing (populate_pokemon_data sample_pokemon (card (view (typed_page '' Pikachu ''))))
       \<and> \<not> search_disabled (view a') \<and> input_value (view a') = []
       \<and> fetch_log a' = fetch_log (typed_page '' Pikachu '') @ [fetch_url ''pikachu'']
       \<and> pending a' = pending (typed_page '' Pikachu ''))"
proof -
  have n: "normalize_query (input_value (view (typed_page '' Pikachu ''))) = ''pikachu''"
    by code_simp
  have ok: "response_ok 200" by (simp add: response_ok_def)
  show ?thesis
    using search_success [OF typed_page_reachable n _ ok] n ok typed_page_reachable by simp
qed

theorem search_empty_query_witness:
  "list_all js_whitespace (input_value (view (typed_page ''  ''))) \<and>
   app_step (typed_page ''  '') Submit_form =
     (typed_page ''  '')\<lparr>view := show_error empty_query_message (view (typed_page ''  ''))\<rparr>"
proof -
  have w: "\<forall>c \<in> set (input_value (view (typed_page ''  ''))). js_whitespace c"
    by (simp add: js_whitespace_def ascii_code_def)
  show ?thesis using search_empty_query [OF w] w by (simp add: list_all_iff)
qed

theorem search_not_found_witness:
  "reachable (typed_page ''missingno'') \<and>
   normalize_query (input_value (view (typed_page ''missingno''))) = ''missingno'' \<and>
   (let a' = app_run (typed_page ''missingno'')
               [Submit_form, Fetch_settled (next_ticket (typed_page ''missingno''))
                               (Http_response 404 (Json_syntax_error []))]
    in display_of (view a') = Error (not_found_message ''missingno'')
       \<and> \<not> search_disabled (view a') \<and> input_value (view a') = input_value (view (typed_page ''missingno''))
       \<and> js_includes (error_text (view a')) ''missingno'')"
proof -
  have n: "normalize_query (input_value (view (typed_page ''missingno''))) = ''missingno''"
    by code_simp
  show ?thesis
    using search_not_found [OF typed_page_reachable n, of "Json_syntax_error []"] n typed_page_reachable
    by simp
qed

definition searching_page :: app where
  "searching_page = app_run init_app [Set_input ''pikachu'', Submit_form]"

lemma searching_page_reachable: "reachable searching_page"
  unfolding searching_page_def by (rule reachable_run [OF reachable.start])

theorem reachable_exclusive_witness:
  "reachable searching_page \<and> exclusive (view searching_page)"
  using reachable_exclusive [OF searching_page_reachable] searching_page_reachable by simp

definition failed_page :: app where
  "failed_page = app_run searching_page [Fetch_settled 0 (Network_failure ''Failed to fetch'')]"

theorem reachable_idle_cleanup_witness:
  "reachable failed_page \<and> pending failed_page = [] \<and>
   \<not> loading_shown (view failed_page) \<and> \<not> search_disabled (view failed_page)
   \<and> search_label (view failed_page) = ''Search Pokemon''"
proof -
  have r: "reachable failed_page"
    unfolding failed_page_def by (rule reachable_run [OF searching_page_reachable])
  have n: "normalize_query ''pikachu'' = ''pikachu''" by code_simp
  have p: "pending failed_page = []"
    using n by (simp add: failed_page_def searching_page_def search_pokemon_def init_app_def
        issue_fetch_def fetch_settled_def search_settle_def Let_def)
  show ?thesis using reachable_idle_cleanup [OF r p] r p by simp
qed

theorem random_fetch_in_range_witness:
  "(0::rat) \<le> 1 / 2 \<and> (1 / 2 :: rat) < 1 \<and>
   (\<exists>k. 1 \<le> k \<and> k \<le> 1010
        \<and> fetch_log (app_step init_app (Click_random (1 / 2))) = fetch_log init_app @ [fetch_url (nat_to_string k)]
        \<and> display_of (view (app_step init_app (Click_random (1 / 2)))) = Loading)"
  using random_fetch_in_range [of "1 / 2" init_app] by simp

theorem random_id_onto_witness: "1 \<le> (25::nat) \<and> (25::nat) \<le> 1010 \<and> random_id (24 / 1010) = 25"
  using random_id_onto [of 25] by simp

theorem http_error_classified_generic_witness:
  "100 \<le> (500::nat) \<and> (500::nat) < 1000 \<and> (500::nat) \<noteq> 404 \<and>
   classify_error ''pikachu'' (http_error 500) = generic_message"
  using http_error_classified_generic [of 500 "''pikachu''"] by simp

theorem settle_overrides_display_witness:
  "find (\<lambda>r. req_ticket r = 0) (pending searching_page) =
     Some \<lparr>req_ticket = 0, req_origin = From_search ''pikachu''\<rparr> \<and>
   display_of (view (fetch_settled 0 (Network_failure ''Failed to fetch'') searching_page)) =
     Error (classify_error ''pikachu'' ''Failed to fetch'')"
proof -
  have n: "normalize_query ''pikachu'' = ''pikachu''" by code_simp
  have f: "find (\<lambda>r. req_ticket r = 0) (pending searching_page) =
             Some \<lparr>req_ticket = 0, req_origin = From_search ''pikachu''\<rparr>"
    using n by (simp add: searching_page_def search_pokemon_def init_app_def issue_fetch_def Let_def)
  show ?thesis
    using settle_overrides_display [OF f, of "''pikachu''" "Network_failure ''Failed to fetch''"] f
    by simp
qed

theorem random_failure_message_shown_witness:
  "reachable init_app \<and> fetch_pokemon (Network_failure ''Failed to fetch'') = Inl ''Failed to fetch'' \<and>
   display_of (view (app_run init_app [Click_random (1 / 2),
     Fetch_settled (next_ticket init_app) (Network_failure ''Failed to fetch'')])) =
     Error random_failure_message"
  using random_failure_message_shown [OF reachable.start, of "Network_failure ''Failed to fetch''"
      "''Failed to fetch''" "1 / 2"]
  by (simp add: reachable.start Let_def)

theorem normalize_query_shape_witness:
  "normalize_query '' Pikachu '' \<noteq> [] \<and>
   \<not> js_whitespace (hd (normalize_query '' Pikachu '')) \<and>
   list_all (\<lambda>c. \<not> (65 \<le> ascii_code c \<and> ascii_code c \<le> 90)) (normalize_query '' Pikachu '')"
proof -
  have n: "normalize_query '' Pikachu '' \<noteq> []" by code_simp
  show ?thesis using normalize_query_shape [OF n] n by simp
qed

theorem json_error_reported_not_found_witness:
  "response_ok 200 \<and> js_includes ''Unexpected token < in JSON at position 404'' ''404'' \<and>
   search_settle ''pikachu'' (Http_response 200 (Json_syntax_error ''Unexpected token < in JSON at position 404'')) init_app =
   init_app\<lparr>view := hide_loading (show_error (not_found_message ''pikachu'') (view init_app))\<rparr>"
proof -
  have ok: "response_ok 200" by (simp add: response_ok_def)
  have inc: "js_includes ''Unexpected token < in JSON at position 404'' ''404''" by code_simp
  show ?thesis using json_error_reported_not_found [OF ok inc] ok inc by simp
qed

end
