(* ===== verification/Spec2Isabelle.thy ===== *)
theory Spec2Isabelle
  imports Controller
begin

text \<open>
  \<^bold>\<open>A verified model of the Pokemon Explorer front-end (src/app.js).\<close>

  The repository is one browser script: the class \<open>PokemonExplorer\<close> wires the page's
  elements to a PokeAPI lookup. Its parts and how they interact:
  \<^item> the request controller, \<open>searchPokemon\<close> and \<open>getRandomPokemon\<close> (lines 112--158),
    async handlers that put the page into its loading state, await the fetcher, then show the
    card or an error and, in \<open>finally\<close>, clear the loading state;
  \<^item> the record fetcher, \<open>fetchPokemon\<close> (lines 160--172), one GET of the API base
    followed by the query, turning a bad status into a thrown \<open>Error\<close>;
  \<^item> the presentation formatter, \<open>populatePokemonData\<close>, \<open>populateTypes\<close>,
    \<open>populateAbilities\<close>, \<open>capitalize\<close>, \<open>formatAbilityName\<close> (lines 174--281) and
    the image fallback chain \<open>loadPokemonImage\<close> / \<open>tryLoadImage\<close> /
    \<open>handleImageError\<close> (lines 194--250), whose callbacks run after the handler returned;
  \<^item> the DOM helpers \<open>hideAllSections\<close>, \<open>showLoading\<close>, \<open>hideLoading\<close>,
    \<open>showError\<close>, \<open>showPokemon\<close>, \<open>showHelp\<close>, \<open>hideHelp\<close> (lines 72--110),
    the only code that writes the page's section flags;
  \<^item> the event wiring: the constructor and \<open>bindEvents\<close> (lines 4--70) and the global
    keyboard shortcuts (lines 338--358).

  \<^bold>\<open>Theories.\<close>
  \<^item> \<open>Prelude\<close>: the theorem collections \<open>js_simps\<close>, \<open>view_simps\<close>,
    \<open>ctrl_simps\<close>, the types \<open>js_string\<close> and \<open>url\<close>, facts on characters and lists.
  \<^item> \<open>Js_Runtime\<close>: the JavaScript built-ins the code calls, from the ECMAScript
    specification (\<open>trim\<close>, \<open>toLowerCase\<close>, \<open>toUpperCase\<close>, \<open>charAt\<close>,
    \<open>slice\<close>, \<open>split\<close>, \<open>join\<close>, \<open>includes\<close>, \<open>padStart\<close>,
    \<open>Number.prototype.toString\<close>, \<open>toFixed\<close>), with their round trips
    (\<open>js_join_split\<close>, \<open>string_to_nat_nat_to_string\<close>) and the exact value of
    \<open>(h / 10).toFixed(1)\<close> (\<open>js_to_fixed_tenths\<close>).
  \<^item> \<open>Pokemon_Data\<close>: the part of the API record the code reads (\<open>pokemon\<close> and its
    nested sprite records) and the outcome of one \<open>fetch\<close> (\<open>fetch_outcome\<close>).
  \<^item> \<open>Formatter\<close>: \<open>capitalize\<close>, \<open>format_ability_name\<close> with its one-pass
    reference \<open>title_words\<close> (C8), the card values \<open>id_text\<close>, \<open>height_text\<close>,
    \<open>weight_text\<close>, \<open>exp_text\<close>, the badges, \<open>populate_pokemon_data\<close>, and the
    image chain: \<open>image_candidates\<close>, \<open>filter_boolean\<close>, \<open>image_sources\<close>,
    \<open>try_load_image\<close> (the recursive \<open>tryLoadImage\<close>, a \<open>function\<close> whose
    termination measure is the number of candidates left), \<open>load_pokemon_image\<close>.
    Lemmas: the chain resolves to the first loadable candidate (C7); the identifier text (C13, C14), the
    height, weight and base-experience texts (C15--C17);
    a formatted ability name holds no hyphen (C25).
  \<^item> \<open>Fetcher\<close>: \<open>fetch_url\<close>, \<open>fetch_pokemon\<close> (errors as \<open>Inl\<close> of the thrown
    message), and \<open>http_error_3digit\<close>: the message of a non-404 status never contains 404
    or network.
  \<^item> \<open>View\<close>: the page record \<open>view\<close> and one function per DOM helper; the spec's
    display state \<open>display\<close> (Idle, Loading, Error, Showing), read from a page by
    \<open>display_of\<close> and, partially, by \<open>view_display\<close>, which is undefined on a page
    showing two sections at once; the helpers' refinement of the spec's transitions through
    \<open>view_display\<close> from every page (C19); the invariants \<open>exclusive\<close> and
    \<open>button_consistent\<close>.
  \<^item> \<open>Controller\<close>: the application state \<open>app\<close> (page, pending fetches and image
    chains as tickets, logs of the URLs sent to the network), the handlers cut at their
    \<open>await\<close> (\<open>search_pokemon\<close>, \<open>get_random_pokemon\<close>, \<open>shortcut\<close>) and their
    continuations (\<open>search_settle\<close>, \<open>random_settle\<close>, \<open>fetch_settled\<close>,
    \<open>image_settled\<close>), the step function \<open>app_step\<close> over \<open>event\<close> and the
    reachable states. Lemmas: the invariant \<open>app_inv\<close> of every reachable state
    (C5, C6), the search lifecycle (C1, C3, C4), error classification (C11, C20), the
    random identifier (C9, C10), the random lifecycle on failure (C22), the keyboard: Enter,
    with the browser's implicit form submission \<open>implicit_submit\<close> (C12), and Ctrl+R (C23), the last settled fetch deciding the page (C21), and the shape of
    the normalised query (C24).
  \<^item> this theory: properties spanning the formatter and the controller: the event-level image
    callbacks refine \<open>try_load_image\<close> (\<open>image_chain_run\<close>), so that a search ends
    showing the image \<open>load_pokemon_image\<close> resolves (C2); and the image chains that
    no event cancels, so that an earlier search's image lands on a later record's card (C18).

  \<^bold>\<open>How the model corresponds to the code.\<close> A DOM element's observable state is a
  record field; a method that mutates the page is a function \<open>view \<Rightarrow> view\<close> or
  \<open>app \<Rightarrow> app\<close>; an exception is the \<open>Inl\<close> of its message; each \<open>await\<close> is a
  suspension point where other events may run, so an async handler is split into the part
  before the \<open>await\<close> (run by the event that calls it) and the continuation (run by the
  event \<open>Fetch_settled t\<close> or \<open>Image_settled t\<close> for its ticket \<open>t\<close>). The two
  awaits of \<open>fetchPokemon\<close> (\<open>fetch\<close>, then \<open>response.json()\<close>) are one settlement
  event. The network and image loading are the environment: a fetch outcome is an argument of
  its event, image availability a function \<open>loads\<close>, \<open>Math.random()\<close> a rational in
  [0, 1) carried by the click event. \<open>Submit_form\<close> is a \<open>submit\<close> event reaching the
  form's listener and may occur in any state, more than a user can trigger while the submit
  button is disabled, so the invariants hold a fortiori. \<open>Key_press ''Enter''\<close> is the
  input's \<open>keypress\<close> listener followed by the browser's default action, the implicit
  submission of the form, which HTML suppresses while the form's default button is
  disabled; that button is \<open>searchBtn\<close> (the spec's submit affordance; index.html is not
  part of the sources).

  \<^bold>\<open>Bounds.\<close> There is no fuel: every loop is structural or has a measure. Numbers are
  exact: identifiers, heights and weights are \<open>nat\<close>, \<open>toFixed\<close> works on rationals
  and is modelled below 10^21 (above it JavaScript switches to exponential notation, which the
  model leaves as \<open>None\<close>), so C15 and C16 assume values below 10^22 tenths; C11 covers
  the three-digit statuses, which is every status \<open>fetch\<close> reports for an HTTP response.

  \<^bold>\<open>Not modelled.\<close> Rendering and styling, \<open>console\<close> logging, the inert
  \<open>initializeAutoSuggest\<close> (never called), the \<open>online\<close>/\<open>offline\<close> and service-worker
  listeners (logging only), the \<open>module.exports\<close> line, JSON bodies of the wrong shape (the
  code dereferences \<open>types\<close> and \<open>abilities\<close> unguarded), \<open>toUpperCase\<close> beyond ASCII and \<open>trim\<close>/\<open>toLowerCase\<close>
  beyond code point 255 (a character of the model is 8-bit).

  \<^bold>\<open>Further work.\<close> The auto-suggest hook \<open>initializeAutoSuggest\<close> as a
  function over its suggestion list; a simulation of the whole controller against the
  spec's display state machine over arbitrary interleavings of two searches; the help
  dialog's focus handling.
\<close>

lemma find_chain_ticket:
  "distinct (map chain_ticket xs) \<Longrightarrow> ch \<in> set xs \<Longrightarrow>
   find (\<lambda>x. chain_ticket x = chain_ticket ch) xs = Some ch"
  by (induction xs) auto

lemma filter_chain_update:
  "filter (\<lambda>x. chain_ticket x \<noteq> c) (map (\<lambda>x. if chain_ticket x = c then x\<lparr>chain_index := j\<rparr> else x) xs) =
   filter (\<lambda>x. chain_ticket x \<noteq> c) xs"
  by (induction xs) auto

lemma chain_ticket_comp_update [simp]:
  "chain_ticket \<circ> (\<lambda>x. if chain_ticket x = c then x\<lparr>chain_index := j\<rparr> else x) = chain_ticket"
  by (rule ext) simp

lemma update_image_card_image [simp]:
  "card_image (card (update_image f v)) = f (card_image (card v))"
  by (simp add: update_image_def)

lemma update_image_update_image [simp]:
  "update_image f (update_image g v) = update_image (f \<circ> g) v"
  by (simp add: update_image_def)

lemma try_load_image_tried_hd:
  "i < length srcs \<Longrightarrow> snd (try_load_image loads srcs i nm img) = srcs ! i # tl (snd (try_load_image loads srcs i nm img))"
  by (simp add: try_load_image.simps [of loads srcs i] split: prod.splits)

text \<open>
  The callbacks of one image chain, fed the load outcomes of an environment \<open>loads\<close>
  one event per URL the chain requests, reach exactly the state that the loop
  \<open>try_load_image\<close> of \<open>Formatter\<close> computes: the event-level
  \<open>image_settled\<close> refines the functional fallback chain.
\<close>

lemma image_chain_run:
  assumes "distinct (map chain_ticket (chains a))" "ch \<in> set (chains a)"
    "chain_ticket ch = c" "chain_index ch = i" "chain_sources ch = srcs" "chain_name ch = nm"
    "i < length srcs" "card_image (card (view a)) = img"
  shows "app_run a (map (\<lambda>u. Image_settled c (loads u)) (snd (try_load_image loads srcs i nm img))) =
           a\<lparr>chains := filter (\<lambda>x. chain_ticket x \<noteq> c) (chains a),
             view := update_image (\<lambda>_. fst (try_load_image loads srcs i nm img)) (view a),
             image_log := image_log a @ tl (snd (try_load_image loads srcs i nm img))\<rparr>"
  using assms
proof (induction loads srcs i nm img arbitrary: a ch rule: try_load_image.induct)
  case (1 loads srcs i nm img)
  have find: "find (\<lambda>x. chain_ticket x = c) (chains a) = Some ch"
    using find_chain_ticket [OF "1.prems"(1,2)] "1.prems"(3) by simp
  have img: "update_image f (view a) = update_image (\<lambda>_. f img) (view a)" for f
    using "1.prems"(8) by (simp add: update_image_def)
  show ?case
  proof (cases "loads (srcs ! i)")
    case True
    with "1.prems"(7) have "try_load_image loads srcs i nm img = (image_onload (srcs ! i) nm img, [srcs ! i])"
      by (simp add: try_load_image.simps [of loads srcs i])
    with True find "1.prems" show ?thesis
      by (simp add: image_settled_def img [of "image_onload (srcs ! i) nm"])
  next
    case nl: False
    let ?R = "try_load_image loads srcs (Suc i) nm img"
    have R: "try_load_image loads srcs i nm img = (fst ?R, srcs ! i # snd ?R)"
      using "1.prems"(7) nl by (simp add: try_load_image.simps [of loads srcs i] split: prod.splits)
    show ?thesis
    proof (cases "length srcs \<le> Suc i")
      case True
      then have "?R = (handle_image_error img, [])"
        by (simp add: try_load_image.simps [of loads srcs "Suc i"])
      with R nl True find "1.prems" show ?thesis
        by (simp add: image_settled_def img [of handle_image_error])
    next
      case False
      let ?ch = "ch\<lparr>chain_index := Suc i\<rparr>"
      let ?a1 = "a\<lparr>chains := map (\<lambda>x. if chain_ticket x = c then x\<lparr>chain_index := Suc i\<rparr> else x) (chains a),
                  image_log := image_log a @ [srcs ! Suc i]\<rparr>"
      have step: "image_settled c False a = ?a1"
        using find False "1.prems" by (simp add: image_settled_def)
      have "?ch \<in> set (chains ?a1)"
        using "1.prems"(2,3) by force
      then have IH: "app_run ?a1 (map (\<lambda>u. Image_settled c (loads u)) (snd ?R)) =
          ?a1\<lparr>chains := filter (\<lambda>x. chain_ticket x \<noteq> c) (chains ?a1),
              view := update_image (\<lambda>_. fst ?R) (view ?a1),
              image_log := image_log ?a1 @ tl (snd ?R)\<rparr>"
        using "1.IH" [OF _ nl, of ?a1 ?ch] "1.prems" False by simp
      have hd: "srcs ! Suc i # tl (snd ?R) = snd ?R"
        using False by (intro try_load_image_tried_hd [symmetric]) simp
      show ?thesis
        using IH step R hd nl by (simp add: filter_chain_update)
    qed
  qed
qed

lemma image_sources_not_Nil: "image_sources p \<noteq> []"
  using image_sources_fallbacks [of p] by auto

text \<open>C2: after a successful search, the image callbacks, fed any load behaviour one outcome per requested URL and not interleaved with other events, leave the card showing exactly the image that loadPokemonImage resolves (the first candidate that loads, else hidden), the network sees exactly the candidates it tries, in order, and the page shows the card\<close>

theorem search_image_resolution:
  assumes "reachable a" "normalize_query (input_value (view a)) = q" "q \<noteq> []" "response_ok st"
  shows "let a1 = app_run a [Submit_form, Fetch_settled (next_ticket a) (Http_response st (Json p))];
             img0 = card_image (card (view a));
             a2 = app_run a1 (map (\<lambda>u. Image_settled (Suc (next_ticket a)) (loads u))
                                  (snd (load_pokemon_image loads p img0)))
         in card_image (card (view a2)) = fst (load_pokemon_image loads p img0)
            \<and> image_log a2 = image_log a @ snd (load_pokemon_image loads p img0)
            \<and> display_of (view a2) = Showing (card (view a2))"
proof -
  let ?a1 = "app_run a [Submit_form, Fetch_settled (next_ticket a) (Http_response st (Json p))]"
  let ?img0 = "card_image (card (view a))"
  let ?srcs = "image_sources p"
  let ?ch = "\<lparr>chain_ticket = Suc (next_ticket a), chain_sources = ?srcs, chain_index = 0,
              chain_name = name p\<rparr>"
  let ?T = "try_load_image loads ?srcs 0 (name p) (reset_image ?img0)"
  have a1: "?a1 = search_settle q (Http_response st (Json p))
                    ((issue_fetch (From_search q) q (a\<lparr>view := show_loading (view a)\<rparr>))\<lparr>pending := pending a\<rparr>)"
    by (rule search_round_trip [OF assms(1-3)])
  have ne: "?srcs \<noteq> []" by (rule image_sources_not_Nil)
  have ch: "?ch \<in> set (chains ?a1)"
    using ne assms(4) unfolding a1
    by (simp add: search_settle_def show_pokemon_app_def Let_def issue_fetch_def)
  have img: "card_image (card (view ?a1)) = reset_image ?img0"
    using ne assms(4) unfolding a1
    by (simp add: search_settle_def view_simps populate_pokemon_data_def load_image_start_def
        issue_fetch_def)
  have log: "image_log ?a1 = image_log a @ [?srcs ! 0]"
    using ne assms(4) unfolding a1
    by (simp add: search_settle_def show_pokemon_app_def Let_def issue_fetch_def)
  have flags: "\<not> loading_shown (view ?a1) \<and> \<not> error_shown (view ?a1) \<and> card_shown (view ?a1)"
    using assms(4) unfolding a1 by (simp add: search_settle_def view_simps issue_fetch_def)
  have "app_inv ?a1"
    by (rule reachable_app_inv [OF reachable_run [OF assms(1)]])
  then have dist: "distinct (map chain_ticket (chains ?a1))"
    by (simp add: app_inv_def tickets_ok_def)
  have run: "app_run ?a1 (map (\<lambda>u. Image_settled (Suc (next_ticket a)) (loads u)) (snd ?T)) =
      ?a1\<lparr>chains := filter (\<lambda>x. chain_ticket x \<noteq> Suc (next_ticket a)) (chains ?a1),
          view := update_image (\<lambda>_. fst ?T) (view ?a1),
          image_log := image_log ?a1 @ tl (snd ?T)\<rparr>"
  proof (rule image_chain_run [OF dist ch _ _ _ _ _ img])
    show "0 < length ?srcs" using ne by simp
  qed simp_all
  have load: "load_pokemon_image loads p ?img0 = ?T"
    using ne by (simp add: load_pokemon_image_def Let_def)
  have hd: "?srcs ! 0 # tl (snd ?T) = snd ?T"
    using ne by (intro try_load_image_tried_hd [symmetric]) simp
  show ?thesis
    using run load log hd flags by (simp add: Let_def display_of_def update_image_def)
qed

text \<open>
  Two searches whose image chains overlap: the first search's chain is still waiting for its
  first image when the second record is shown.
\<close>

definition bulbasaur_record :: pokemon where
  "bulbasaur_record =
     \<lparr>name = ''bulbasaur'', poke_id = 1, sprites = None, height = 7, weight = 69,
      base_experience = Some 64, types = [], abilities = []\<rparr>"

definition ivysaur_record :: pokemon where
  "ivysaur_record =
     \<lparr>name = ''ivysaur'', poke_id = 2, sprites = None, height = 10, weight = 130,
      base_experience = Some 142, types = [], abilities = []\<rparr>"

definition overlap_page :: app where
  "overlap_page = app_run init_app
     [Set_input ''bulbasaur'', Submit_form, Fetch_settled 0 (Http_response 200 (Json bulbasaur_record)),
      Set_input ''ivysaur'', Submit_form, Fetch_settled 2 (Http_response 200 (Json ivysaur_record))]"

text \<open>
  C18: the image chains of successive searches are never cancelled: in every reachable state,
  a pending chain survives every event other than its own callbacks, and when its image loads
  it writes its own record's image URL and alt text into the card, whatever record the card
  shows by then (the witness: the first search's image lands on the second record's card)
\<close>

theorem stale_image_chain_overwrites:
  assumes "reachable a" "ch \<in> set (chains a)"
  shows "(\<forall>e. (\<forall>ok. e \<noteq> Image_settled (chain_ticket ch) ok) \<longrightarrow> ch \<in> set (chains (app_step a e)))
         \<and> card (view (app_step a (Image_settled (chain_ticket ch) True))) =
             (card (view a))\<lparr>card_image := image_onload (chain_sources ch ! chain_index ch) (chain_name ch)
                                             (card_image (card (view a)))\<rparr>"
proof -
  have "distinct (map chain_ticket (chains a))"
    using reachable_app_inv [OF assms(1)] by (simp add: app_inv_def tickets_ok_def)
  then have "find (\<lambda>x. chain_ticket x = chain_ticket ch) (chains a) = Some ch"
    by (rule find_chain_ticket [OF _ assms(2)])
  then show ?thesis
    using chain_kept_step [OF assms(2)] by (simp add: image_settled_def Let_def update_image_def)
qed

text \<open>
  The hypotheses of C2 at a concrete page: the input holds \<open>' Pikachu '\<close>, the API answers
  200, and only the second fallback URL loads.
\<close>

theorem search_image_resolution_witness:
  "reachable (typed_page '' Pikachu '') \<and>
   normalize_query (input_value (view (typed_page '' Pikachu ''))) = ''pikachu'' \<and> response_ok 200 \<and>
   (let a = typed_page '' Pikachu '';
        a1 = app_run a [Submit_form, Fetch_settled (next_ticket a) (Http_response 200 (Json sample_pokemon))];
        img0 = card_image (card (view a));
        loads = (\<lambda>u. u = github_sprite_url 25);
        a2 = app_run a1 (map (\<lambda>u. Image_settled (Suc (next_ticket a)) (loads u))
                             (snd (load_pokemon_image loads sample_pokemon img0)))
    in card_image (card (view a2)) = fst (load_pokemon_image loads sample_pokemon img0)
       \<and> image_log a2 = image_log a @ snd (load_pokemon_image loads sample_pokemon img0)
       \<and> display_of (view a2) = Showing (card (view a2)))"
proof -
  have n: "normalize_query (input_value (view (typed_page '' Pikachu ''))) = ''pikachu''"
    by code_simp
  have ok: "response_ok 200" by (simp add: response_ok_def)
  show ?thesis
    using search_image_resolution [OF typed_page_reachable n _ ok, of sample_pokemon "\<lambda>u. u = github_sprite_url 25"]
      typed_page_reachable n ok
    by (simp add: Let_def)
qed

theorem stale_image_chain_overwrites_witness:
  "reachable overlap_page
   \<and> \<lparr>chain_ticket = 1, chain_sources = image_sources bulbasaur_record, chain_index = 0,
      chain_name = ''bulbasaur''\<rparr> \<in> set (chains overlap_page)
   \<and> card_name (card (view (app_step overlap_page (Image_settled 1 True)))) = ''Ivysaur''
   \<and> img_alt (card_image (card (view (app_step overlap_page (Image_settled 1 True))))) = ''bulbasaur sprite''"
proof -
  have r: "reachable overlap_page"
    unfolding overlap_page_def by (rule reachable_run [OF reachable.start])
  have m: "\<lparr>chain_ticket = 1, chain_sources = image_sources bulbasaur_record, chain_index = 0,
      chain_name = ''bulbasaur''\<rparr> \<in> set (chains overlap_page)"
    unfolding overlap_page_def by code_simp
  have n: "card_name (card (view overlap_page)) = ''Ivysaur''"
    unfolding overlap_page_def by code_simp
  show ?thesis
    using stale_image_chain_overwrites [OF r m] r m n by (simp add: image_onload_def)
qed

end
